theory Spec2Isabelle
  imports Complex_Main "HOL-Library.Sublist" "HOL-Library.Multiset"
begin

section \<open>Articles as the dashboard receives them\<close>

text \<open>
  The React components of the repository work on the JSON articles the API delivers
  (the shape is the one of the mock data in \<^verbatim>\<open>NewsFeed.jsx\<close> and
  \<^verbatim>\<open>ArchiveLookup.jsx\<close>). A field that may be \<^verbatim>\<open>null\<close> or missing is an
  option; \<^verbatim>\<open>published_at\<close> is the string the API sends, read by the components
  through \<^verbatim>\<open>new Date(...)\<close>.
\<close>

record article =
  article_id :: string
  title :: string
  content :: string
  url :: string
  source :: string
  author :: "string option"
  ticker_symbol :: "string option"
  company_name :: "string option"
  published_at :: string
  sentiment_score :: "real option"
  sentiment_label :: "string option"
  confidence_score :: "real option"
  is_processed :: bool

subsection \<open>The string methods the filters call\<close>

text \<open>
  \<^verbatim>\<open>String.prototype.toLowerCase\<close> on the ASCII letters (ticker symbols are ASCII;
  the characters of a HOL string are bytes), and \<^verbatim>\<open>String.prototype.includes\<close>:
  the argument occurs as a contiguous piece of the receiver.
\<close>

definition lower_char :: "char \<Rightarrow> char" where
  "lower_char c =
     (let n = (of_char c :: nat) in if 65 \<le> n \<and> n \<le> 90 then char_of (n + 32) else c)"

definition toLowerCase :: "string \<Rightarrow> string" where
  "toLowerCase s = map lower_char s"

fun includes_str :: "string \<Rightarrow> string \<Rightarrow> bool" where
  "includes_str [] needle \<longleftrightarrow> needle = []"
| "includes_str (c # cs) needle \<longleftrightarrow> prefix needle (c # cs) \<or> includes_str cs needle"

section \<open>NewsFeed: the filtered article list\<close>

text \<open>
  \<^verbatim>\<open>
  const filteredArticles = articles.filter(article => {
    const matchesFilter = filter === 'all' || article.sentiment_label === filter;
    const matchesTicker = !tickerFilter ||
      (article.ticker_symbol && article.ticker_symbol.toLowerCase().includes(tickerFilter.toLowerCase()));
    return matchesFilter && matchesTicker;
  });
  \<close>
  The empty string is falsy, so \<^verbatim>\<open>!tickerFilter\<close> holds exactly for the empty
  ticker filter, and an article whose ticker symbol is null or empty does not match a
  non-empty one.
\<close>

definition matchesFilter :: "string \<Rightarrow> article \<Rightarrow> bool" where
  "matchesFilter flt a \<longleftrightarrow> flt = ''all'' \<or> sentiment_label a = Some flt"

definition matchesTicker :: "string \<Rightarrow> article \<Rightarrow> bool" where
  "matchesTicker tickerFilter a \<longleftrightarrow>
     tickerFilter = [] \<or>
     (case ticker_symbol a of
        None \<Rightarrow> False
      | Some t \<Rightarrow> t \<noteq> [] \<and> includes_str (toLowerCase t) (toLowerCase tickerFilter))"

definition filteredArticles :: "string \<Rightarrow> string \<Rightarrow> article list \<Rightarrow> article list" where
  "filteredArticles flt tickerFilter articles =
     filter (\<lambda>a. matchesFilter flt a \<and> matchesTicker tickerFilter a) articles"

section \<open>ArchiveLookup: search, sort and pagination\<close>

record archive_state =
  articles :: "article list"
  loading :: bool
  error :: "string option"
  searchQuery :: string
  selectedTicker :: string
  dateRange :: string
  sentimentFilter :: string
  sortBy :: string
  currentPage :: int
  totalPages :: int

text \<open>The initial values of the \<^verbatim>\<open>useState\<close> hooks.\<close>

definition initial_archive_state :: archive_state where
  "initial_archive_state =
     \<lparr>articles = [], loading = False, error = None, searchQuery = [], selectedTicker = [],
      dateRange = ''7d'', sentimentFilter = ''all'', sortBy = ''date'', currentPage = 1,
      totalPages = 1\<rparr>"

subsection \<open>Pagination buttons\<close>





subsection \<open>The search request, the filters and the sort\<close>

text \<open>
  Two library functions of the JavaScript runtime are parameters of the model:
  \<open>date_ms\<close> stands for \<^verbatim>\<open>new Date(s)\<close> read as a number (its time value in
  milliseconds; \<open>None\<close> is an Invalid Date, whose time value is NaN), and
  \<open>localeCompare\<close> for \<^verbatim>\<open>String.prototype.localeCompare\<close>.

  \<^verbatim>\<open>
  filteredArticles.sort((a, b) => {
    switch (sortBy) {
      case 'date':      return new Date(b.published_at) - new Date(a.published_at);
      case 'sentiment': return (b.sentiment_score || 0) - (a.sentiment_score || 0);
      case 'title':     return a.title.localeCompare(b.title);
      default:          return 0;
    }
  });
  \<close>
  A comparator result NaN (a date that does not parse) counts as \<open>0\<close>, as the
  language's SortCompare has it.
\<close>

definition score_or_zero :: "article \<Rightarrow> real" where
  "score_or_zero a = (case sentiment_score a of None \<Rightarrow> 0 | Some x \<Rightarrow> x)"

definition compare_articles ::
  "(string \<Rightarrow> int option) \<Rightarrow> (string \<Rightarrow> string \<Rightarrow> int) \<Rightarrow> string \<Rightarrow> article \<Rightarrow> article \<Rightarrow> real"
where
  "compare_articles date_ms localeCompare sort_by a b =
     (if sort_by = ''date'' then
        (case (date_ms (published_at b), date_ms (published_at a)) of
           (Some tb, Some ta) \<Rightarrow> real_of_int (tb - ta)
         | _ \<Rightarrow> 0)
      else if sort_by = ''sentiment'' then score_or_zero b - score_or_zero a
      else if sort_by = ''title'' then real_of_int (localeCompare (title a) (title b))
      else 0)"

text \<open>
  \<^verbatim>\<open>Array.prototype.sort(comparefn)\<close> is stable and orders the array by the
  comparator: the model is the stable insertion sort, which places an element before
  the first later element it does not compare greater than.
\<close>

fun insert_sorted :: "('a \<Rightarrow> 'a \<Rightarrow> real) \<Rightarrow> 'a \<Rightarrow> 'a list \<Rightarrow> 'a list" where
  "insert_sorted cmp x [] = [x]"
| "insert_sorted cmp x (y # ys) =
     (if cmp x y \<le> 0 then x # y # ys else y # insert_sorted cmp x ys)"

definition js_sort :: "('a \<Rightarrow> 'a \<Rightarrow> real) \<Rightarrow> 'a list \<Rightarrow> 'a list" where
  "js_sort cmp xs = foldr (insert_sorted cmp) xs []"

text \<open>
  \<^verbatim>\<open>
  if (selectedTicker) {
    filteredArticles = filteredArticles.filter(article =>
      article.ticker_symbol?.toLowerCase().includes(selectedTicker.toLowerCase()));
  }
  if (sentimentFilter !== 'all') {
    filteredArticles = filteredArticles.filter(article =>
      article.sentiment_label === sentimentFilter);
  }
  \<close>
\<close>

definition apply_filters :: "archive_state \<Rightarrow> article list \<Rightarrow> article list" where
  "apply_filters st data =
     (let by_ticker =
            (if selectedTicker st \<noteq> [] then
               filter (\<lambda>a. case ticker_symbol a of
                              None \<Rightarrow> False
                            | Some t \<Rightarrow> includes_str (toLowerCase t) (toLowerCase (selectedTicker st)))
                 data
             else data)
      in if sentimentFilter st \<noteq> ''all'' then
           filter (\<lambda>a. sentiment_label a = Some (sentimentFilter st)) by_ticker
         else by_ticker)"

definition getMockArchiveData :: "article list" where
  "getMockArchiveData =
    [\<lparr>article_id = ''1'',
      title = ''Apple Reports Record Q4 Revenue Driven by iPhone Sales'',
      content = ''Apple Inc. announced record-breaking fourth-quarter revenue, with iPhone sales exceeding expectations and services revenue showing strong growth.'',
      url = ''https://example.com/apple-q4-2023'', source = ''Reuters'',
      author = Some ''John Smith'', ticker_symbol = Some ''AAPL'',
      company_name = Some ''Apple Inc.'', published_at = ''2023-12-15T14:30:00Z'',
      sentiment_score = Some (85 / 100), sentiment_label = Some ''positive'',
      confidence_score = Some (94 / 100), is_processed = True\<rparr>,
     \<lparr>article_id = ''2'',
      title = ''Tesla Faces Production Delays Due to Supply Chain Issues'',
      content = ''Tesla has announced production delays for several models due to ongoing supply chain challenges affecting semiconductor availability.'',
      url = ''https://example.com/tesla-delays-2023'', source = ''Bloomberg'',
      author = Some ''Jane Doe'', ticker_symbol = Some ''TSLA'',
      company_name = Some ''Tesla Inc.'', published_at = ''2023-12-14T09:15:00Z'',
      sentiment_score = Some (- (45 / 100)), sentiment_label = Some ''negative'',
      confidence_score = Some (87 / 100), is_processed = True\<rparr>,
     \<lparr>article_id = ''3'',
      title = ''Microsoft Cloud Services Show Strong Growth in Q3'',
      content = ''Microsoft reported strong quarterly results with Azure cloud services leading the growth, exceeding analyst expectations.'',
      url = ''https://example.com/microsoft-q3-2023'', source = ''TechCrunch'',
      author = Some ''Mike Johnson'', ticker_symbol = Some ''MSFT'',
      company_name = Some ''Microsoft Corporation'', published_at = ''2023-12-13T16:45:00Z'',
      sentiment_score = Some (72 / 100), sentiment_label = Some ''positive'',
      confidence_score = Some (91 / 100), is_processed = True\<rparr>,
     \<lparr>article_id = ''4'',
      title = ''Google Announces New AI Research Initiative'',
      content = ''Google has launched a new artificial intelligence research initiative focused on developing more advanced language models.'',
      url = ''https://example.com/google-ai-2023'', source = ''The Verge'',
      author = Some ''Sarah Wilson'', ticker_symbol = Some ''GOOGL'',
      company_name = Some ''Alphabet Inc.'', published_at = ''2023-12-12T11:20:00Z'',
      sentiment_score = Some (38 / 100), sentiment_label = Some ''positive'',
      confidence_score = Some (83 / 100), is_processed = True\<rparr>,
     \<lparr>article_id = ''5'',
      title = ''Amazon Faces Regulatory Scrutiny Over Market Dominance'',
      content = ''Amazon is under increased regulatory scrutiny as lawmakers examine the company's market dominance in e-commerce.'',
      url = ''https://example.com/amazon-regulation-2023'', source = ''Wall Street Journal'',
      author = Some ''David Brown'', ticker_symbol = Some ''AMZN'',
      company_name = Some ''Amazon.com Inc.'', published_at = ''2023-12-11T13:10:00Z'',
      sentiment_score = Some (- (28 / 100)), sentiment_label = Some ''negative'',
      confidence_score = Some (79 / 100), is_processed = True\<rparr>]"

text \<open>
  \<open>searchArticles\<close>: the state after the request has settled. The response is
  \<open>Some data\<close> when the request resolved with the array \<open>data\<close>, and \<open>None\<close> when it
  was rejected, which the \<^verbatim>\<open>catch\<close> block answers with the mock data and three
  pages. \<^verbatim>\<open>Math.ceil(n / 10)\<close> of a length \<open>n\<close> is \<open>(n + 9) div 10\<close>.
\<close>

definition searchArticles ::
  "(string \<Rightarrow> int option) \<Rightarrow> (string \<Rightarrow> string \<Rightarrow> int) \<Rightarrow> archive_state \<Rightarrow> article list option
     \<Rightarrow> archive_state"
where
  "searchArticles date_ms localeCompare st response =
     (case response of
        Some data \<Rightarrow>
          (let filtered = js_sort (compare_articles date_ms localeCompare (sortBy st))
                            (apply_filters st data)
           in st\<lparr>articles := filtered,
                 totalPages := (int (length filtered) + 9) div 10,
                 error := None, loading := False\<rparr>)
      | None \<Rightarrow>
          st\<lparr>error := Some ''Failed to search articles'',
             articles := getMockArchiveData, totalPages := 3, loading := False\<rparr>)"

text \<open>
  The order the claim is about: \<open>a\<close> stands before \<open>b\<close> only if both dates are valid
  and \<open>a\<close> was published at the same time as \<open>b\<close> or later.
\<close>

definition newer_or_equal :: "(string \<Rightarrow> int option) \<Rightarrow> article \<Rightarrow> article \<Rightarrow> bool" where
  "newer_or_equal date_ms a b =
     (case (date_ms (published_at a), date_ms (published_at b)) of
        (Some ta, Some tb) \<Rightarrow> tb \<le> ta
      | _ \<Rightarrow> False)"

definition valid_date :: "(string \<Rightarrow> int option) \<Rightarrow> article \<Rightarrow> bool" where
  "valid_date date_ms a \<longleftrightarrow> date_ms (published_at a) \<noteq> None"

subsection \<open>A click on a pagination button\<close>







subsection \<open>A date function for the timestamps the API sends\<close>

text \<open>
  The UTC timestamps of the form \<^verbatim>\<open>YYYY-MM-DDTHH:MM:SSZ\<close>, as milliseconds since
  1970-01-01; every other string is not read. It instantiates \<open>date_ms\<close> on the
  mock data.
\<close>

definition digit_of :: "char \<Rightarrow> int option" where
  "digit_of c =
     (let n = (of_char c :: nat) in if 48 \<le> n \<and> n \<le> 57 then Some (int n - 48) else None)"

fun digits_from :: "int \<Rightarrow> string \<Rightarrow> int option" where
  "digits_from acc [] = Some acc"
| "digits_from acc (c # cs) =
     (case digit_of c of None \<Rightarrow> None | Some d \<Rightarrow> digits_from (10 * acc + d) cs)"

definition days_from_civil :: "int \<Rightarrow> int \<Rightarrow> int \<Rightarrow> int" where
  "days_from_civil y m d =
     (let y' = (if m \<le> 2 then y - 1 else y);
          era = y' div 400;
          yoe = y' - era * 400;
          doy = (153 * (if 2 < m then m - 3 else m + 9) + 2) div 5 + d - 1;
          doe = yoe * 365 + yoe div 4 - yoe div 100 + doy
      in era * 146097 + doe - 719468)"

definition iso_utc_ms :: "string \<Rightarrow> int option" where
  "iso_utc_ms s =
     (if length s = 20 \<and> take 1 (drop 4 s) = ''-'' \<and> take 1 (drop 7 s) = ''-''
         \<and> take 1 (drop 10 s) = ''T'' \<and> take 1 (drop 13 s) = '':''
         \<and> take 1 (drop 16 s) = '':'' \<and> drop 19 s = ''Z'' then
        (case (digits_from 0 (take 4 s), digits_from 0 (take 2 (drop 5 s)),
               digits_from 0 (take 2 (drop 8 s)), digits_from 0 (take 2 (drop 11 s)),
               digits_from 0 (take 2 (drop 14 s)), digits_from 0 (take 2 (drop 17 s))) of
           (Some y, Some mo, Some d, Some h, Some mi, Some sec) \<Rightarrow>
             (if 1 \<le> mo \<and> mo \<le> 12 \<and> 1 \<le> d \<and> d \<le> 31 \<and> h \<le> 23 \<and> mi \<le> 59 \<and> sec \<le> 59
              then Some ((((days_from_civil y mo d * 24 + h) * 60 + mi) * 60 + sec) * 1000)
              else None)
         | _ \<Rightarrow> None)
      else None)"


section \<open>SentimentPanel: classification of a score and the summary helpers\<close>

subsection \<open>The classification the panel applies to a score\<close>

text \<open>
  \<^verbatim>\<open>
  const getSentimentTrend = (average) => {
    if (average > 0.1) return { direction: 'up', color: 'text-green-600', icon: TrendingUp };
    if (average < -0.1) return { direction: 'down', color: 'text-red-600', icon: TrendingDown };
    return { direction: 'neutral', color: 'text-gray-600', icon: Activity };
  };
  ...
  {article.sentiment_score > 0.1 ? 'Positive' : article.sentiment_score < -0.1 ? 'Negative' : 'Neutral'}
  \<close>
  A score is the real number its decimal notation stands for (the comparisons round
  nothing); \<open>None\<close> is a score that is null, undefined or NaN, for which both
  comparisons are false.
\<close>

datatype icon = TrendingUp | TrendingDown | Activity

record trend =
  direction :: string
  color :: string
  trend_icon :: icon

definition getSentimentTrend :: "real option \<Rightarrow> trend" where
  "getSentimentTrend average =
     (case average of
        None \<Rightarrow> \<lparr>direction = ''neutral'', color = ''text-gray-600'', trend_icon = Activity\<rparr>
      | Some x \<Rightarrow>
          if x > 1 / 10 then
            \<lparr>direction = ''up'', color = ''text-green-600'', trend_icon = TrendingUp\<rparr>
          else if x < - (1 / 10) then
            \<lparr>direction = ''down'', color = ''text-red-600'', trend_icon = TrendingDown\<rparr>
          else \<lparr>direction = ''neutral'', color = ''text-gray-600'', trend_icon = Activity\<rparr>)"

definition sentiment_badge :: "real option \<Rightarrow> string" where
  "sentiment_badge score =
     (case score of
        None \<Rightarrow> ''Neutral''
      | Some x \<Rightarrow>
          if x > 1 / 10 then ''Positive''
          else if x < - (1 / 10) then ''Negative''
          else ''Neutral'')"

text \<open>
  The thresholds as the specification words them (section 4.2), for comparison with the
  two functions above: \<open>score \<ge> 0.5\<close> is strongly positive, \<open>0.1 \<le> score < 0.5\<close>
  positive, \<open>-0.1 < score < 0.1\<close> neutral, \<open>-0.5 < score \<le> -0.1\<close> negative and
  \<open>score \<le> -0.5\<close> strongly negative.
\<close>

datatype sentiment_class =
  strongly_negative | negative | neutral | positive | strongly_positive

definition spec_label :: "real \<Rightarrow> sentiment_class" where
  "spec_label s =
     (if s \<ge> 1 / 2 then strongly_positive
      else if s \<ge> 1 / 10 then positive
      else if s > - (1 / 10) then neutral
      else if s > - (1 / 2) then negative
      else strongly_negative)"

subsection \<open>JavaScript values\<close>

text \<open>
  The helpers of the panel read a response of unknown shape, guarded by truthiness
  tests. Reading a property of \<^verbatim>\<open>null\<close> or \<^verbatim>\<open>undefined\<close> throws a
  TypeError; a property an object does not have is \<^verbatim>\<open>undefined\<close>; numbers,
  strings, booleans and arrays have none of the properties read here.
\<close>

datatype jsval =
    Undefined
  | Null
  | JBool bool
  | JNum real
  | JNaN
  | JStr string
  | JObj "(string \<times> jsval) list"
  | JArr "jsval list"

datatype js_error = TypeError

fun truthy :: "jsval \<Rightarrow> bool" where
  "truthy Undefined = False"
| "truthy Null = False"
| "truthy (JBool b) = b"
| "truthy (JNum x) = (x \<noteq> 0)"
| "truthy JNaN = False"
| "truthy (JStr s) = (s \<noteq> [])"
| "truthy (JObj kvs) = True"
| "truthy (JArr vs) = True"

fun js_get :: "jsval \<Rightarrow> string \<Rightarrow> js_error + jsval" where
  "js_get Undefined p = Inl TypeError"
| "js_get Null p = Inl TypeError"
| "js_get (JObj kvs) p = Inr (case map_of kvs p of None \<Rightarrow> Undefined | Some v \<Rightarrow> v)"
| "js_get v p = Inr Undefined"

definition js_bind :: "js_error + 'a \<Rightarrow> ('a \<Rightarrow> js_error + 'b) \<Rightarrow> js_error + 'b" where
  "js_bind r f = (case r of Inl e \<Rightarrow> Inl e | Inr v \<Rightarrow> f v)"

text \<open>\<^verbatim>\<open>a || b\<close>\<close>

definition js_or :: "jsval \<Rightarrow> jsval \<Rightarrow> jsval" where
  "js_or a b = (if truthy a then a else b)"

subsection \<open>The summary and the distribution helpers\<close>

text \<open>
  \<^verbatim>\<open>
  const getSentimentSummary = () => {
    if (!trendsData || !trendsData.summary) {
      return {
        total_articles: 0,
        average_sentiment: 0,
        sentiment_distribution: { positive: 0, negative: 0, neutral: 0 }
      };
    }
    return trendsData.summary;
  };
  \<close>
  The component state \<^verbatim>\<open>trendsData\<close> is the argument.
\<close>

definition zero_distribution :: jsval where
  "zero_distribution =
     JObj [(''positive'', JNum 0), (''negative'', JNum 0), (''neutral'', JNum 0)]"

definition zero_summary :: jsval where
  "zero_summary =
     JObj [(''total_articles'', JNum 0), (''average_sentiment'', JNum 0),
           (''sentiment_distribution'', zero_distribution)]"

definition getSentimentSummary :: "jsval \<Rightarrow> js_error + jsval" where
  "getSentimentSummary trendsData =
     (if \<not> truthy trendsData then Inr zero_summary
      else js_bind (js_get trendsData ''summary'') (\<lambda>s.
             if \<not> truthy s then Inr zero_summary
             else js_get trendsData ''summary''))"

text \<open>
  \<^verbatim>\<open>
  const formatPieData = (summary) => {
    if (!summary || !summary.sentiment_distribution) {
      return [
        { name: 'Positive', value: 0, color: '#10B981' },
        { name: 'Negative', value: 0, color: '#EF4444' },
        { name: 'Neutral', value: 0, color: '#6B7280' }
      ];
    }
    const distribution = summary.sentiment_distribution;
    return [
      { name: 'Positive', value: distribution.positive || 0, color: '#10B981' },
      { name: 'Negative', value: distribution.negative || 0, color: '#EF4444' },
      { name: 'Neutral', value: distribution.neutral || 0, color: '#6B7280' }
    ];
  };
  \<close>
\<close>

definition pie_entry :: "string \<Rightarrow> jsval \<Rightarrow> string \<Rightarrow> jsval" where
  "pie_entry nm v col = JObj [(''name'', JStr nm), (''value'', v), (''color'', JStr col)]"

definition pie_of :: "jsval \<Rightarrow> jsval \<Rightarrow> jsval \<Rightarrow> jsval" where
  "pie_of p n u =
     JArr [pie_entry ''Positive'' p ''#10B981'', pie_entry ''Negative'' n ''#EF4444'',
           pie_entry ''Neutral'' u ''#6B7280'']"

definition zero_pie :: jsval where
  "zero_pie = pie_of (JNum 0) (JNum 0) (JNum 0)"

definition formatPieData :: "jsval \<Rightarrow> js_error + jsval" where
  "formatPieData summary =
     (if \<not> truthy summary then Inr zero_pie
      else js_bind (js_get summary ''sentiment_distribution'') (\<lambda>d.
             if \<not> truthy d then Inr zero_pie
             else js_bind (js_get summary ''sentiment_distribution'') (\<lambda>distribution.
                  js_bind (js_get distribution ''positive'') (\<lambda>p.
                  js_bind (js_get distribution ''negative'') (\<lambda>n.
                  js_bind (js_get distribution ''neutral'') (\<lambda>u.
                    Inr (pie_of (js_or p (JNum 0)) (js_or n (JNum 0)) (js_or u (JNum 0)))))))))"

text \<open>
  The panel's render path: \<^verbatim>\<open>const summary = getSentimentSummary();
  const pieData = formatPieData(summary);\<close>
\<close>

definition panel_pie :: "jsval \<Rightarrow> js_error + jsval" where
  "panel_pie trendsData = js_bind (getSentimentSummary trendsData) formatPieData"

section \<open>Dashboard: the statistics cards\<close>

text \<open>
  \<^verbatim>\<open>
  const [stats, setStats] = useState({ total_articles: 0, processed_articles: 0,
    processing_rate: 0, average_sentiment: 0, top_tickers: [] });
  const fetchStats = async () => {
    try { const response = await axios.get(...); setStats(response.data); }
    catch (err) { /* Keep existing stats on error */ } ...
  \<close>
  Of an entry of \<^verbatim>\<open>top_tickers\<close> the dashboard reads the ticker only.
\<close>

record stats =
  total_articles :: int
  processed_articles :: int
  processing_rate :: real
  average_sentiment :: real
  top_tickers :: "string list"

definition initial_stats :: stats where
  "initial_stats =
     \<lparr>total_articles = 0, processed_articles = 0, processing_rate = 0,
      average_sentiment = 0, top_tickers = []\<rparr>"

definition fetchStats :: "stats \<Rightarrow> stats option \<Rightarrow> stats" where
  "fetchStats st response = (case response of Some data \<Rightarrow> data | None \<Rightarrow> st)"

section \<open>The database schema\<close>

text \<open>
  The tables the database initialisation script (\<^verbatim>\<open>init-db.sql\<close>) creates. A row
  is modelled as it is stored, with the
  column defaults already filled in (a generated \<^verbatim>\<open>id\<close> is whatever
  \<^verbatim>\<open>gen_random_uuid()\<close> returned). A \<^verbatim>\<open>NOT NULL\<close> column has a plain type
  and a nullable one an option, so a row that violates \<^verbatim>\<open>NOT NULL\<close> cannot be
  written down; the other constraints of the schema are checked by the statements below.
  \<^verbatim>\<open>FLOAT\<close> is PostgreSQL's double precision, which holds the infinities and NaN
  besides the finite numbers; \<^verbatim>\<open>JSONB\<close> is a JSON value.
\<close>

type_synonym uuid = nat

type_synonym timestamp = int

datatype float8 = Finite real | PosInfinity | NegInfinity | NotANumber

record news_article =
  na_id :: uuid
  na_published_at :: timestamp
  na_title :: string
  na_content :: string
  na_summary :: "string option"
  na_url :: string
  na_source :: string
  na_author :: "string option"
  na_ticker_symbol :: "string option"
  na_company_name :: "string option"
  na_sector :: "string option"
  na_industry :: "string option"
  na_created_at :: "timestamp option"
  na_updated_at :: "timestamp option"
  na_sentiment_score :: "float8 option"
  na_sentiment_label :: "string option"
  na_confidence_score :: "float8 option"
  na_sentiment_vector :: "real list option"
  na_content_vector :: "real list option"
  na_keywords :: "jsval option"
  na_entities :: "jsval option"
  na_market_impact_score :: "float8 option"
  na_is_processed :: "bool option"
  na_is_archived :: "bool option"
  na_raw_data :: "jsval option"

record sentiment_analysis =
  sa_id :: uuid
  sa_article_id :: uuid
  sa_model_name :: string
  sa_analysis_type :: string
  sa_sentiment_score :: float8
  sa_sentiment_label :: string
  sa_confidence_score :: "float8 option"
  sa_embedding_vector :: "real list option"
  sa_processing_time_ms :: "int option"
  sa_created_at :: "timestamp option"
  sa_analysis_data :: "jsval option"

record market_impact =
  mi_id :: uuid
  mi_article_id :: uuid
  mi_ticker_symbol :: string
  mi_price_before :: "float8 option"
  mi_price_after :: "float8 option"
  mi_price_change_percent :: "float8 option"
  mi_volume_change_percent :: "float8 option"
  mi_impact_window_hours :: int
  mi_measurement_time :: timestamp
  mi_sentiment_price_correlation :: "float8 option"
  mi_impact_score :: "float8 option"
  mi_created_at :: "timestamp option"
  mi_analysis_data :: "jsval option"

datatype db_error = StringTooLong | WrongDimension | IntegerOutOfRange | UniqueViolation

subsection \<open>Column types\<close>

text \<open>\<^verbatim>\<open>VARCHAR(n)\<close> (at most \<open>n\<close> characters, counted as the characters of a HOL
  string), \<^verbatim>\<open>vector(n)\<close> (exactly \<open>n\<close> components) and \<^verbatim>\<open>INTEGER\<close> (32 bits).\<close>

definition fits :: "nat \<Rightarrow> string \<Rightarrow> bool" where
  "fits n s \<longleftrightarrow> length s \<le> n"

definition fits_opt :: "nat \<Rightarrow> string option \<Rightarrow> bool" where
  "fits_opt n s \<longleftrightarrow> (case s of None \<Rightarrow> True | Some t \<Rightarrow> fits n t)"

definition dim_opt :: "nat \<Rightarrow> real list option \<Rightarrow> bool" where
  "dim_opt n v \<longleftrightarrow> (case v of None \<Rightarrow> True | Some xs \<Rightarrow> length xs = n)"

definition int4 :: "int \<Rightarrow> bool" where
  "int4 i \<longleftrightarrow> - 2147483648 \<le> i \<and> i \<le> 2147483647"

definition int4_opt :: "int option \<Rightarrow> bool" where
  "int4_opt i \<longleftrightarrow> (case i of None \<Rightarrow> True | Some j \<Rightarrow> int4 j)"

subsection \<open>The table \<^verbatim>\<open>news_articles\<close>\<close>

definition article_strings_fit :: "news_article \<Rightarrow> bool" where
  "article_strings_fit r \<longleftrightarrow>
     fits 500 (na_title r) \<and> fits 1000 (na_url r) \<and> fits 100 (na_source r)
     \<and> fits_opt 200 (na_author r) \<and> fits_opt 10 (na_ticker_symbol r)
     \<and> fits_opt 200 (na_company_name r) \<and> fits_opt 100 (na_sector r)
     \<and> fits_opt 100 (na_industry r) \<and> fits_opt 20 (na_sentiment_label r)"

definition article_vectors_fit :: "news_article \<Rightarrow> bool" where
  "article_vectors_fit r \<longleftrightarrow>
     dim_opt 768 (na_sentiment_vector r) \<and> dim_opt 1536 (na_content_vector r)"

text \<open>\<^verbatim>\<open>PRIMARY KEY (id, published_at)\<close>\<close>

definition article_pk :: "news_article \<Rightarrow> uuid \<times> timestamp" where
  "article_pk r = (na_id r, na_published_at r)"

text \<open>
  The column constraints of a row, in the order the statement is checked: the values
  are coerced to the column types first, the unique index of the primary key is
  consulted when the row is written.
\<close>

definition check_article :: "news_article \<Rightarrow> db_error option" where
  "check_article r =
     (if \<not> article_strings_fit r then Some StringTooLong
      else if \<not> article_vectors_fit r then Some WrongDimension
      else None)"

text \<open>
  \<^verbatim>\<open>INSERT INTO news_articles\<close>. The only unique index of the table is the one of
  the primary key: \<^verbatim>\<open>idx_news_articles_url\<close> and the other indexes are created by
  plain \<^verbatim>\<open>CREATE INDEX\<close> and reject nothing.
\<close>

definition insert_article :: "news_article \<Rightarrow> news_article list \<Rightarrow> db_error + news_article list"
where
  "insert_article r tbl =
     (case check_article r of
        Some e \<Rightarrow> Inl e
      | None \<Rightarrow>
          if article_pk r \<in> set (map article_pk tbl) then Inl UniqueViolation
          else Inr (tbl @ [r]))"

text \<open>
  \<^verbatim>\<open>UPDATE news_articles SET ... WHERE id = i AND published_at = t\<close>, the
  assignments given as a function of the old row. The statement fails as a whole when
  a new row breaks a column constraint or the table it would leave has a primary key
  twice.
\<close>

fun first_violation :: "news_article list \<Rightarrow> db_error option" where
  "first_violation [] = None"
| "first_violation (r # rs) =
     (case check_article r of Some e \<Rightarrow> Some e | None \<Rightarrow> first_violation rs)"

definition update_article ::
  "uuid \<times> timestamp \<Rightarrow> (news_article \<Rightarrow> news_article) \<Rightarrow> news_article list
     \<Rightarrow> db_error + news_article list"
where
  "update_article k f tbl =
     (let tbl' = map (\<lambda>r. if article_pk r = k then f r else r) tbl
      in case first_violation tbl' of
           Some e \<Rightarrow> Inl e
         | None \<Rightarrow> if distinct (map article_pk tbl') then Inr tbl' else Inl UniqueViolation)"

text \<open>\<^verbatim>\<open>DELETE FROM news_articles WHERE id = i AND published_at = t\<close>\<close>

definition delete_article :: "uuid \<times> timestamp \<Rightarrow> news_article list \<Rightarrow> news_article list" where
  "delete_article k tbl = filter (\<lambda>r. article_pk r \<noteq> k) tbl"

text \<open>
  A sequence of statements, each in a transaction of its own: a statement that fails
  leaves the table as it was.
\<close>

datatype article_statement =
    InsertArticle news_article
  | UpdateArticle "uuid \<times> timestamp" "news_article \<Rightarrow> news_article"
  | DeleteArticle "uuid \<times> timestamp"

fun exec_statement :: "news_article list \<Rightarrow> article_statement \<Rightarrow> news_article list" where
  "exec_statement tbl (InsertArticle r) =
     (case insert_article r tbl of Inl e \<Rightarrow> tbl | Inr tbl' \<Rightarrow> tbl')"
| "exec_statement tbl (UpdateArticle k f) =
     (case update_article k f tbl of Inl e \<Rightarrow> tbl | Inr tbl' \<Rightarrow> tbl')"
| "exec_statement tbl (DeleteArticle k) = delete_article k tbl"

definition exec_statements :: "news_article list \<Rightarrow> article_statement list \<Rightarrow> news_article list"
where
  "exec_statements tbl stmts = foldl exec_statement tbl stmts"

text \<open>
  \<^verbatim>\<open>SELECT create_hypertable('news_articles', 'published_at', ...)\<close>: the rows are
  kept in chunks by the time column, a chunk covering one interval of the given
  length.
\<close>

definition chunk_of :: "int \<Rightarrow> news_article \<Rightarrow> int" where
  "chunk_of interval r = na_published_at r div interval"

definition chunk_rows :: "int \<Rightarrow> int \<Rightarrow> news_article list \<Rightarrow> news_article list" where
  "chunk_rows interval c tbl = filter (\<lambda>r. chunk_of interval r = c) tbl"

text \<open>The row with nothing but the required columns, empty, from which the examples
  are written.\<close>

definition blank_article :: news_article where
  "blank_article =
     \<lparr>na_id = 0, na_published_at = 0, na_title = [], na_content = [], na_summary = None,
      na_url = [], na_source = [], na_author = None, na_ticker_symbol = None,
      na_company_name = None, na_sector = None, na_industry = None, na_created_at = None,
      na_updated_at = None, na_sentiment_score = None, na_sentiment_label = None,
      na_confidence_score = None, na_sentiment_vector = None, na_content_vector = None,
      na_keywords = None, na_entities = None, na_market_impact_score = None,
      na_is_processed = Some False, na_is_archived = Some False, na_raw_data = None\<rparr>"

text \<open>
  Example rows: one article as the ingestion would store it, and a first and a
  corrected headline published under one URL at one time.
\<close>

definition apple_article :: news_article where
  "apple_article =
     blank_article\<lparr>na_published_at := 1702650600,
       na_title := ''Apple Reports Record Q4 Revenue Driven by iPhone Sales'',
       na_content := ''Apple Inc. announced record-breaking fourth-quarter revenue.'',
       na_url := ''https://example.com/apple-q4-2023'', na_source := ''Reuters'',
       na_ticker_symbol := Some ''AAPL''\<rparr>"

definition tesla_first :: news_article where
  "tesla_first =
     blank_article\<lparr>na_id := 7, na_published_at := 1702545300,
       na_title := ''Tesla Faces Production Delays'',
       na_content := ''Tesla has announced production delays for several models.'',
       na_url := ''https://example.com/tesla-delays-2023'', na_source := ''Bloomberg''\<rparr>"

definition tesla_corrected :: news_article where
  "tesla_corrected =
     tesla_first\<lparr>na_id := 8,
       na_title := ''Tesla Faces Production Delays Due to Supply Chain Issues''\<rparr>"

subsection \<open>The tables \<^verbatim>\<open>sentiment_analyses\<close> and \<^verbatim>\<open>market_impacts\<close>\<close>

text \<open>Both have the single-column primary key \<^verbatim>\<open>id\<close> and no other constraint
  between columns or rows.\<close>

definition check_analysis :: "sentiment_analysis \<Rightarrow> db_error option" where
  "check_analysis r =
     (if \<not> (fits 100 (sa_model_name r) \<and> fits 50 (sa_analysis_type r)
            \<and> fits 20 (sa_sentiment_label r)) then Some StringTooLong
      else if \<not> dim_opt 768 (sa_embedding_vector r) then Some WrongDimension
      else if \<not> int4_opt (sa_processing_time_ms r) then Some IntegerOutOfRange
      else None)"

definition insert_analysis ::
  "sentiment_analysis \<Rightarrow> sentiment_analysis list \<Rightarrow> db_error + sentiment_analysis list"
where
  "insert_analysis r tbl =
     (case check_analysis r of
        Some e \<Rightarrow> Inl e
      | None \<Rightarrow>
          if sa_id r \<in> set (map sa_id tbl) then Inl UniqueViolation else Inr (tbl @ [r]))"

definition check_impact :: "market_impact \<Rightarrow> db_error option" where
  "check_impact r =
     (if \<not> fits 10 (mi_ticker_symbol r) then Some StringTooLong
      else if \<not> int4 (mi_impact_window_hours r) then Some IntegerOutOfRange
      else None)"

definition insert_impact :: "market_impact \<Rightarrow> market_impact list \<Rightarrow> db_error + market_impact list"
where
  "insert_impact r tbl =
     (case check_impact r of
        Some e \<Rightarrow> Inl e
      | None \<Rightarrow>
          if mi_id r \<in> set (map mi_id tbl) then Inl UniqueViolation else Inr (tbl @ [r]))"

text \<open>\<^verbatim>\<open>DELETE FROM market_impacts WHERE article_id = a AND ticker_symbol = t
  AND impact_window_hours = w\<close>\<close>

definition delete_impacts :: "uuid \<Rightarrow> string \<Rightarrow> int \<Rightarrow> market_impact list \<Rightarrow> market_impact list"
where
  "delete_impacts a t w tbl =
     filter (\<lambda>r. \<not> (mi_article_id r = a \<and> mi_ticker_symbol r = t
                     \<and> mi_impact_window_hours r = w)) tbl"

text \<open>A market impact record with nothing but the required columns, for the examples.\<close>

definition blank_impact :: market_impact where
  "blank_impact =
     \<lparr>mi_id = 0, mi_article_id = 0, mi_ticker_symbol = [], mi_price_before = None,
      mi_price_after = None, mi_price_change_percent = None,
      mi_volume_change_percent = None, mi_impact_window_hours = 24,
      mi_measurement_time = 0, mi_sentiment_price_correlation = None,
      mi_impact_score = None, mi_created_at = None, mi_analysis_data = None\<rparr>"

section \<open>The processing pipeline\<close>

text \<open>
  The backend that fills the tables (fetcher and deduplicator, ensemble scorer, market
  impact correlator) is missing from the sources; the schema it writes to and the
  dashboard that reads its results are there. Each definition of this section is
  written from the specification, and says so.
\<close>

text \<open>
  Modelled from the spec: the durable store of sections 2 and 3, as the three tables of
  the schema and the queue of the articles enqueued for scoring (section 4.1); the
  backend that holds it is missing from the sources.
\<close>

record store =
  news_articles :: "news_article list"
  sentiment_analyses :: "sentiment_analysis list"
  market_impacts :: "market_impact list"
  scoring_queue :: "(uuid \<times> timestamp) list"

text \<open>
  Modelled from the spec: the store before anything is ingested; the backend is missing
  from the sources.
\<close>

definition empty_store :: store where
  "empty_store =
     \<lparr>news_articles = [], sentiment_analyses = [], market_impacts = [], scoring_queue = []\<rparr>"

text \<open>
  Modelled from the spec: the generation of row ids. The schema's default is
  \<^verbatim>\<open>gen_random_uuid()\<close>; the model takes an id that no row has yet, which is what a
  random UUID is but for a collision.
\<close>

definition next_uuid :: "uuid list \<Rightarrow> uuid" where
  "next_uuid used = Suc (foldr max used 0)"

subsection \<open>Ingestion\<close>

text \<open>
  Modelled from the spec: the RawArticle of section 6, \<open>{title, url, body, source,
  author?, published_at, ticker?}\<close>; the fetcher that produces it is missing from the
  sources.
\<close>

record raw_article =
  raw_title :: string
  raw_url :: string
  raw_body :: string
  raw_source :: string
  raw_author :: "string option"
  raw_published_at :: timestamp
  raw_ticker :: "string option"

text \<open>
  Modelled from the spec: the IngestResult of section 4.1, \<open>{inserted,
  skipped_duplicate, rejected_invalid}\<close>; the deduplicator is missing from the sources.
\<close>

record ingest_result =
  inserted :: nat
  skipped_duplicate :: nat
  rejected_invalid :: nat

text \<open>
  Modelled from the spec: the IngestResult a call of \<open>ingest\<close> starts from, all
  counters zero; the deduplicator is missing from the sources.
\<close>

definition no_result :: ingest_result where
  "no_result = \<lparr>inserted = 0, skipped_duplicate = 0, rejected_invalid = 0\<rparr>"

text \<open>
  Modelled from the spec: the row stored for a raw article, unscored and unprocessed
  (section 3: the derived attributes are populated by the pipeline,
  \<^verbatim>\<open>is_processed\<close> is false until scoring completes); the fetcher and
  deduplicator are missing from the sources.
\<close>

definition article_of_raw :: "uuid \<Rightarrow> raw_article \<Rightarrow> news_article" where
  "article_of_raw i a =
     blank_article\<lparr>na_id := i, na_published_at := raw_published_at a,
       na_title := raw_title a, na_content := raw_body a, na_url := raw_url a,
       na_source := raw_source a, na_author := raw_author a,
       na_ticker_symbol := raw_ticker a\<rparr>"

text \<open>
  Modelled from the spec: \<open>ingest\<close> of section 4.1 for one raw article; the fetcher
  and the deduplicator are missing from the sources. A raw article without URL or title
  is rejected as invalid. Any other is written to the article table of the schema under
  a generated id, and the storage decides whether it is a duplicate (section 5: the
  unique constraint is the authoritative guard, not an in-process lock): a write the
  table refuses as a violation of a unique constraint counts as a skipped duplicate, a
  row the table takes counts as inserted and is enqueued for scoring, and a row refused
  for another reason counts as rejected.
\<close>

definition ingest_one :: "store \<times> ingest_result \<Rightarrow> raw_article \<Rightarrow> store \<times> ingest_result" where
  "ingest_one sr a =
     (let st = fst sr; res = snd sr in
      if raw_url a = [] \<or> raw_title a = [] then
        (st, res\<lparr>rejected_invalid := Suc (rejected_invalid res)\<rparr>)
      else
        (let r = article_of_raw (next_uuid (map na_id (news_articles st))) a in
         case insert_article r (news_articles st) of
           Inl UniqueViolation \<Rightarrow> (st, res\<lparr>skipped_duplicate := Suc (skipped_duplicate res)\<rparr>)
         | Inl e \<Rightarrow> (st, res\<lparr>rejected_invalid := Suc (rejected_invalid res)\<rparr>)
         | Inr tbl \<Rightarrow>
             (st\<lparr>news_articles := tbl, scoring_queue := scoring_queue st @ [article_pk r]\<rparr>,
              res\<lparr>inserted := Suc (inserted res)\<rparr>)))"

text \<open>
  Modelled from the spec: \<open>ingest(raw_articles) -> IngestResult\<close> of section 4.1, the
  raw articles taken one after the other; the deduplicator is missing from the sources.
\<close>

definition ingest :: "store \<Rightarrow> raw_article list \<Rightarrow> store \<times> ingest_result" where
  "ingest st raws = foldl ingest_one (st, no_result) raws"

text \<open>A raw article as the news provider delivers it, for the examples.\<close>

definition apple_raw :: raw_article where
  "apple_raw =
     \<lparr>raw_title = ''Apple Reports Record Q4 Revenue Driven by iPhone Sales'',
      raw_url = ''https://example.com/apple-q4-2023'',
      raw_body = ''Apple Inc. announced record-breaking fourth-quarter revenue.'',
      raw_source = ''Reuters'', raw_author = Some ''John Smith'',
      raw_published_at = 1702650600, raw_ticker = Some ''AAPL''\<rparr>"

subsection \<open>The sentiment ensemble\<close>

text \<open>
  Modelled from the spec: the outcome of one ensemble member, \<open>classify(text) ->
  (score, confidence)\<close> of section 6, or \<open>None\<close> when the member failed; the members
  and the scorer are missing from the sources.
\<close>

type_synonym member_result = "(real \<times> real) option"

text \<open>
  Modelled from the spec: the EnsembleResult of section 4.2, \<open>{score, label,
  confidence}\<close>; the scorer is missing from the sources.
\<close>

record ensemble_result =
  er_score :: real
  er_label :: sentiment_class
  er_confidence :: real

text \<open>
  Modelled from the spec: the combination rule of section 4.2, which turns the results
  of the two members into the ensemble's result, or into none when the article stays
  unscored. The rule is a parameter of the model: the scorer is missing from the
  sources, and the specification leaves the disagreement penalty and the confidence
  ceiling open (section 9).
\<close>

type_synonym combination = "member_result \<Rightarrow> member_result \<Rightarrow> ensemble_result option"

text \<open>
  Modelled from the spec: the names of the five labels of section 3, as the column
  \<^verbatim>\<open>sentiment_label\<close> stores them; the scorer is missing from the sources.
\<close>

fun label_name :: "sentiment_class \<Rightarrow> string" where
  "label_name strongly_negative = ''strongly_negative''"
| "label_name negative = ''negative''"
| "label_name neutral = ''neutral''"
| "label_name positive = ''positive''"
| "label_name strongly_positive = ''strongly_positive''"

text \<open>
  Modelled from the spec: the SentimentAnalysis record of section 3 for one scoring
  result (model identifier, analysis type, score, label, confidence), written to the
  table of the schema; the scorer is missing from the sources.
\<close>

definition analysis_row ::
  "uuid \<Rightarrow> uuid \<Rightarrow> string \<Rightarrow> string \<Rightarrow> real \<Rightarrow> real \<Rightarrow> sentiment_analysis"
where
  "analysis_row i art model kind s c =
     \<lparr>sa_id = i, sa_article_id = art, sa_model_name = model, sa_analysis_type = kind,
      sa_sentiment_score = Finite s, sa_sentiment_label = label_name (spec_label s),
      sa_confidence_score = Some (Finite c), sa_embedding_vector = None,
      sa_processing_time_ms = None, sa_created_at = None, sa_analysis_data = None\<rparr>"

text \<open>
  Modelled from the spec: the member records of one scoring, one per member that
  returned a result (section 4.2); the scorer is missing from the sources.
\<close>

definition member_rows :: "member_result \<Rightarrow> member_result \<Rightarrow> (string \<times> string \<times> real \<times> real) list"
where
  "member_rows ra rb =
     (case ra of None \<Rightarrow> [] | Some (s, c) \<Rightarrow> [(''local'', ''ensemble-member'', s, c)])
     @ (case rb of None \<Rightarrow> [] | Some (s, c) \<Rightarrow> [(''hosted'', ''ensemble-member'', s, c)])"

text \<open>
  Modelled from the spec: the append of the analysis records of one scoring to the
  table of the schema, stopping at the first one the table refuses; the scorer is
  missing from the sources.
\<close>

fun insert_analyses ::
  "uuid \<Rightarrow> (string \<times> string \<times> real \<times> real) list \<Rightarrow> sentiment_analysis list
     \<Rightarrow> db_error + sentiment_analysis list"
where
  "insert_analyses art [] tbl = Inr tbl"
| "insert_analyses art ((model, kind, s, c) # rest) tbl =
     (case insert_analysis (analysis_row (next_uuid (map sa_id tbl)) art model kind s c) tbl of
        Inl e \<Rightarrow> Inl e
      | Inr tbl' \<Rightarrow> insert_analyses art rest tbl')"

text \<open>
  Modelled from the spec: the assignments of a scoring to the article (section 4.2:
  the sentiment fields, and \<^verbatim>\<open>is_processed\<close> set); the scorer is missing from
  the sources.
\<close>

definition set_sentiment :: "ensemble_result \<Rightarrow> news_article \<Rightarrow> news_article" where
  "set_sentiment res r =
     r\<lparr>na_sentiment_score := Some (Finite (er_score res)),
       na_sentiment_label := Some (label_name (er_label res)),
       na_confidence_score := Some (Finite (er_confidence res)),
       na_is_processed := Some True\<rparr>"

text \<open>
  Modelled from the spec: the scoring of a stored article from the results of the two
  members (section 4.2), the scorer missing from the sources. With no ensemble result
  the article is left unscored. Otherwise the article's sentiment fields are set, the
  member records and the final record are appended and the article leaves the queue;
  all of it or, when the storage refuses a row, none of it.
\<close>

definition score_article ::
  "combination \<Rightarrow> uuid \<times> timestamp \<Rightarrow> member_result \<Rightarrow> member_result \<Rightarrow> store \<Rightarrow> store"
where
  "score_article comb k ra rb st =
     (if k \<notin> set (map article_pk (news_articles st)) then st
      else
        case comb ra rb of
          None \<Rightarrow> st
        | Some res \<Rightarrow>
            (case update_article k (set_sentiment res) (news_articles st) of
               Inl e \<Rightarrow> st
             | Inr arts \<Rightarrow>
                 (case insert_analyses (fst k)
                         (member_rows ra rb
                          @ [(''ensemble'', ''ensemble-final'', er_score res, er_confidence res)])
                         (sentiment_analyses st) of
                    Inl e \<Rightarrow> st
                  | Inr ans \<Rightarrow>
                      st\<lparr>news_articles := arts, sentiment_analyses := ans,
                         scoring_queue := removeAll k (scoring_queue st)\<rparr>)))"

text \<open>
  Modelled from the spec: archiving (section 3: \<^verbatim>\<open>is_archived\<close> is set, the row
  is never deleted); the retention job is missing from the sources.
\<close>

definition archive_article :: "uuid \<times> timestamp \<Rightarrow> store \<Rightarrow> store" where
  "archive_article k st =
     (case update_article k (\<lambda>r. r\<lparr>na_is_archived := Some True\<rparr>) (news_articles st) of
        Inl e \<Rightarrow> st
      | Inr arts \<Rightarrow> st\<lparr>news_articles := arts\<rparr>)"

subsection \<open>The market impact correlator\<close>

text \<open>
  Modelled from the spec: the percent change over the window (section 4.5), undefined
  for a zero base; the correlator is missing from the sources.
\<close>

definition percent_change :: "real \<Rightarrow> real \<Rightarrow> real option" where
  "percent_change before after =
     (if before = 0 then None else Some (100 * (after - before) / before))"

text \<open>
  Modelled from the spec: the alignment of the sentiment's sign with the sign of the
  price move (section 4.5); the correlator is missing from the sources.
\<close>

definition alignment :: "real \<Rightarrow> real \<Rightarrow> real" where
  "alignment s p = sgn s * sgn p"

text \<open>
  Modelled from the spec: the impact score of section 4.5, the magnitude of the price
  move times the alignment; the correlator is missing from the sources.
\<close>

definition impact_score_of :: "real \<Rightarrow> real \<Rightarrow> real" where
  "impact_score_of s p = \<bar>p\<bar> * alignment s p"

text \<open>
  Modelled from the spec: the MarketImpact record of section 3 for an article with
  sentiment score \<open>s\<close>, from the observations \<open>(price, volume)\<close> at the two ends of
  the window; the correlator is missing from the sources.
\<close>

definition impact_row ::
  "uuid \<Rightarrow> real \<Rightarrow> string \<Rightarrow> int \<Rightarrow> timestamp \<Rightarrow> real \<times> real \<Rightarrow> real \<times> real \<Rightarrow> market_impact"
where
  "impact_row art s ticker window now b a =
     (let p = percent_change (fst b) (fst a) in
      \<lparr>mi_id = 0, mi_article_id = art, mi_ticker_symbol = ticker,
       mi_price_before = Some (Finite (fst b)), mi_price_after = Some (Finite (fst a)),
       mi_price_change_percent = map_option Finite p,
       mi_volume_change_percent = map_option Finite (percent_change (snd b) (snd a)),
       mi_impact_window_hours = window, mi_measurement_time = now,
       mi_sentiment_price_correlation = map_option (\<lambda>x. Finite (alignment s x)) p,
       mi_impact_score = map_option (\<lambda>x. Finite (impact_score_of s x)) p,
       mi_created_at = Some now, mi_analysis_data = None\<rparr>)"

text \<open>
  Modelled from the spec: the commit of a MarketImpact record (section 4.5: the record
  for the same article, ticker and window is overwritten, not duplicated; section 3:
  the article carries the impact score), all of it or none of it; the correlator is
  missing from the sources.
\<close>

definition commit_impact :: "uuid \<times> timestamp \<Rightarrow> market_impact \<Rightarrow> store \<Rightarrow> db_error + store" where
  "commit_impact k row st =
     (let others = delete_impacts (mi_article_id row) (mi_ticker_symbol row)
                     (mi_impact_window_hours row) (market_impacts st)
      in case insert_impact (row\<lparr>mi_id := next_uuid (map mi_id others)\<rparr>) others of
           Inl e \<Rightarrow> Inl e
         | Inr imps \<Rightarrow>
             (case update_article k (\<lambda>r. r\<lparr>na_market_impact_score := mi_impact_score row\<rparr>)
                     (news_articles st) of
                Inl e \<Rightarrow> Inl e
              | Inr arts \<Rightarrow> Inr (st\<lparr>market_impacts := imps, news_articles := arts\<rparr>)))"

text \<open>
  Modelled from the spec: the errors of a correlation (section 7); the correlator is
  missing from the sources.
\<close>

datatype correlate_error = PreconditionFailed | InsufficientPriceData | StorageRefused db_error

text \<open>
  Modelled from the spec: the phases of a correlation job, which holds the article's
  score and the observations it has read so far; the correlator is missing from the
  sources.
\<close>

datatype job_phase =
    Pending
  | HaveBefore real "real \<times> real"
  | HaveBoth real "real \<times> real" "real \<times> real"
  | Committed
  | Failed correlate_error

text \<open>
  Modelled from the spec: one step of \<open>correlate(article, ticker, window_hours)\<close>
  (section 4.5), the correlator missing from the sources. The job checks that the
  article is processed, scored and carries a ticker and that the window is positive,
  and reads the price at the publication time; then the price at the end of the
  window; then it commits the record. A missing observation ends the job with
  \<open>InsufficientPriceData\<close>. The price feed \<open>price_at(ticker, timestamp) -> (price,
  volume)\<close> of section 6 is a parameter. Only the last step writes to the store.
\<close>

definition job_step ::
  "(string \<Rightarrow> timestamp \<Rightarrow> (real \<times> real) option) \<Rightarrow> uuid \<times> timestamp \<Rightarrow> string \<Rightarrow> int \<Rightarrow> timestamp
     \<Rightarrow> store \<times> job_phase \<Rightarrow> store \<times> job_phase"
where
  "job_step price_at k ticker window now sp =
     (let st = fst sp in
      case snd sp of
        Pending \<Rightarrow>
          (case List.find (\<lambda>r. article_pk r = k) (news_articles st) of
             None \<Rightarrow> (st, Failed PreconditionFailed)
           | Some art \<Rightarrow>
               (case na_sentiment_score art of
                  Some (Finite s) \<Rightarrow>
                    if na_is_processed art \<noteq> Some True \<or> na_ticker_symbol art = None
                       \<or> window \<le> 0
                    then (st, Failed PreconditionFailed)
                    else
                      (case price_at ticker (snd k) of
                         None \<Rightarrow> (st, Failed InsufficientPriceData)
                       | Some b \<Rightarrow> (st, HaveBefore s b))
                | _ \<Rightarrow> (st, Failed PreconditionFailed)))
      | HaveBefore s b \<Rightarrow>
          (case price_at ticker (snd k + window * 3600) of
             None \<Rightarrow> (st, Failed InsufficientPriceData)
           | Some a \<Rightarrow> (st, HaveBoth s b a))
      | HaveBoth s b a \<Rightarrow>
          (case commit_impact k (impact_row (fst k) s ticker window now b a) st of
             Inl e \<Rightarrow> (st, Failed (StorageRefused e))
           | Inr st' \<Rightarrow> (st', Committed))
      | Committed \<Rightarrow> (st, Committed)
      | Failed e \<Rightarrow> (st, Failed e))"

text \<open>
  Modelled from the spec: a correlation job that runs \<open>n\<close> steps and is then
  abandoned (section 5: a job may be abandoned mid-flight); three steps complete it.
  The correlator is missing from the sources.
\<close>

definition run_job ::
  "(string \<Rightarrow> timestamp \<Rightarrow> (real \<times> real) option) \<Rightarrow> uuid \<times> timestamp \<Rightarrow> string \<Rightarrow> int \<Rightarrow> timestamp
     \<Rightarrow> nat \<Rightarrow> store \<Rightarrow> store \<times> job_phase"
where
  "run_job price_at k ticker window now n st =
     ((job_step price_at k ticker window now) ^^ n) (st, Pending)"

text \<open>
  Modelled from the spec: \<open>correlate(article, ticker, window_hours)\<close> of section 4.5,
  the job run to its end; the correlator is missing from the sources.
\<close>

definition correlate ::
  "(string \<Rightarrow> timestamp \<Rightarrow> (real \<times> real) option) \<Rightarrow> uuid \<times> timestamp \<Rightarrow> string \<Rightarrow> int \<Rightarrow> timestamp
     \<Rightarrow> store \<Rightarrow> store \<times> job_phase"
where
  "correlate price_at k ticker window now st = run_job price_at k ticker window now 3 st"

subsection \<open>The operations on the store\<close>

text \<open>
  Modelled from the spec: what the pipeline is configured with, the combination rule of
  the ensemble (section 4.2) and the external price feed of section 6; the backend is
  missing from the sources.
\<close>

record pipeline_config =
  cfg_combine :: combination
  cfg_price_at :: "string \<Rightarrow> timestamp \<Rightarrow> (real \<times> real) option"

text \<open>
  Modelled from the spec: the operations that write to the store: ingestion, scoring
  and re-scoring with the results the two members returned, correlation jobs run to
  completion or abandoned after some steps, archiving; the backend is missing from the
  sources.
\<close>

datatype pipeline_op =
    Ingest "raw_article list"
  | Score "uuid \<times> timestamp" member_result member_result
  | Correlate "uuid \<times> timestamp" string int timestamp nat
  | Archive "uuid \<times> timestamp"

text \<open>
  Modelled from the spec: the effect of one operation on the store; the backend is
  missing from the sources.
\<close>

fun apply_op :: "pipeline_config \<Rightarrow> store \<Rightarrow> pipeline_op \<Rightarrow> store" where
  "apply_op cfg st (Ingest raws) = fst (ingest st raws)"
| "apply_op cfg st (Score k ra rb) = score_article (cfg_combine cfg) k ra rb st"
| "apply_op cfg st (Correlate k ticker window now n) =
     fst (run_job (cfg_price_at cfg) k ticker window now n st)"
| "apply_op cfg st (Archive k) = archive_article k st"

text \<open>
  Modelled from the spec: a history of operations, one after the other; the backend is
  missing from the sources.
\<close>

definition run_pipeline :: "pipeline_config \<Rightarrow> store \<Rightarrow> pipeline_op list \<Rightarrow> store" where
  "run_pipeline cfg st ops = foldl (apply_op cfg) st ops"

subsection \<open>The invariant of the price snapshots\<close>

text \<open>A price snapshot is whole: both prices are present, or neither is.\<close>

definition prices_paired :: "market_impact \<Rightarrow> bool" where
  "prices_paired r \<longleftrightarrow> (mi_price_before r = None) = (mi_price_after r = None)"

text \<open>
  A configuration (an ensemble that takes the result of its first member, and a price
  feed) and a history of operations for the examples: an article is ingested twice,
  scored, correlated over 24 hours by a job that is abandoned after two steps and by one
  that completes, correlated over 48 hours, for which the feed has no price, and
  archived.
\<close>

definition example_config :: pipeline_config where
  "example_config =
     \<lparr>cfg_combine = (\<lambda>ra rb.
        case ra of
          None \<Rightarrow> None
        | Some (s, c) \<Rightarrow> Some \<lparr>er_score = s, er_label = spec_label s, er_confidence = c\<rparr>),
      cfg_price_at = (\<lambda>ticker t.
        if ticker = ''AAPL'' \<and> t = 1702650600 then Some (100, 1000)
        else if ticker = ''AAPL'' \<and> t = 1702737000 then Some (105, 1200)
        else None)\<rparr>"

definition example_ops :: "pipeline_op list" where
  "example_ops =
     [Ingest [apple_raw, apple_raw],
      Score (1, 1702650600) (Some (8 / 10, 9 / 10)) (Some (2 / 10, 5 / 10)),
      Correlate (1, 1702650600) ''AAPL'' 24 1702740000 2,
      Correlate (1, 1702650600) ''AAPL'' 24 1702740000 3,
      Correlate (1, 1702650600) ''AAPL'' 48 1702740000 3,
      Archive (1, 1702650600)]"

section \<open>Properties\<close>

text \<open>
  C9. With the sentiment filter \<^verbatim>\<open>'all'\<close> and the empty ticker filter the news
  feed shows the article list unchanged: the same articles in the same order.
\<close>

theorem C9_filter_identity: "filteredArticles ''all'' [] xs = xs"
  by (simp add: filteredArticles_def matchesFilter_def matchesTicker_def)

subsection \<open>The page after clicks on Previous and Next\<close>














subsection \<open>The sort orders the archive results\<close>

lemma set_insert_sorted: "set (insert_sorted cmp x ys) = insert x (set ys)"
  by (induction ys) auto

lemma mset_insert_sorted: "mset (insert_sorted cmp x ys) = add_mset x (mset ys)"
  by (induction ys) auto

lemma mset_js_sort: "mset (js_sort cmp xs) = mset xs"
  unfolding js_sort_def by (induction xs) (simp_all add: mset_insert_sorted)

lemma set_js_sort: "set (js_sort cmp xs) = set xs"
  using mset_js_sort [of cmp xs] by (metis set_mset_mset)

lemma sorted_insert_sorted:
  assumes tot: "\<forall>y\<in>S. (cmp x y \<le> 0 \<longrightarrow> R x y) \<and> (\<not> cmp x y \<le> 0 \<longrightarrow> R y x)"
    and trans: "\<forall>y\<in>S. \<forall>z\<in>S. R x y \<longrightarrow> R y z \<longrightarrow> R x z"
  shows "set ys \<subseteq> S \<Longrightarrow> sorted_wrt R ys \<Longrightarrow> sorted_wrt R (insert_sorted cmp x ys)"
proof (induction ys)
  case Nil
  then show ?case by simp
next
  case (Cons y ys)
  have yS: "y \<in> S" and sub: "set ys \<subseteq> S" using Cons.prems(1) by simp_all
  have ys: "\<forall>z\<in>set ys. R y z" and srt: "sorted_wrt R ys" using Cons.prems(2) by simp_all
  show ?case
  proof (cases "cmp x y \<le> 0")
    case True
    then have xy: "R x y" using tot yS by blast
    have "\<forall>z\<in>set ys. R x z"
      using xy ys trans yS sub by blast
    with xy True Cons.prems(2) show ?thesis by simp
  next
    case False
    then have yx: "R y x" using tot yS by blast
    have "sorted_wrt R (insert_sorted cmp x ys)"
      using Cons.IH sub srt by simp
    with False yx ys show ?thesis
      by (simp add: set_insert_sorted)
  qed
qed

lemma date_compare_le:
  assumes "valid_date date_ms a" and "valid_date date_ms b"
  shows "compare_articles date_ms lc ''date'' a b \<le> 0 \<longleftrightarrow> newer_or_equal date_ms a b"
  using assms
  by (auto simp: compare_articles_def newer_or_equal_def valid_date_def)

lemma date_compare_gt:
  assumes "valid_date date_ms a" and "valid_date date_ms b"
    and "\<not> compare_articles date_ms lc ''date'' a b \<le> 0"
  shows "newer_or_equal date_ms b a"
  using assms
  by (auto simp: compare_articles_def newer_or_equal_def valid_date_def)

lemma newer_or_equal_trans:
  "newer_or_equal date_ms a b \<Longrightarrow> newer_or_equal date_ms b c \<Longrightarrow> newer_or_equal date_ms a c"
  by (auto simp: newer_or_equal_def split: option.splits)

lemma sorted_js_sort_date:
  assumes "\<And>a. a \<in> set xs \<Longrightarrow> valid_date date_ms a"
  shows "sorted_wrt (newer_or_equal date_ms) (js_sort (compare_articles date_ms lc ''date'') xs)"
  using assms
proof (induction xs)
  case Nil
  then show ?case by (simp add: js_sort_def)
next
  case (Cons x xs)
  have ih: "sorted_wrt (newer_or_equal date_ms) (js_sort (compare_articles date_ms lc ''date'') xs)"
    using Cons by simp
  have step: "js_sort (compare_articles date_ms lc ''date'') (x # xs) =
      insert_sorted (compare_articles date_ms lc ''date'') x
        (js_sort (compare_articles date_ms lc ''date'') xs)"
    by (simp add: js_sort_def)
  let ?S = "insert x (set xs)"
  have tot: "\<forall>y\<in>?S. (compare_articles date_ms lc ''date'' x y \<le> 0 \<longrightarrow> newer_or_equal date_ms x y) \<and>
      (\<not> compare_articles date_ms lc ''date'' x y \<le> 0 \<longrightarrow> newer_or_equal date_ms y x)"
    using Cons.prems date_compare_le date_compare_gt by (metis insert_iff list.set(2))
  have trans: "\<forall>y\<in>?S. \<forall>z\<in>?S. newer_or_equal date_ms x y \<longrightarrow> newer_or_equal date_ms y z
      \<longrightarrow> newer_or_equal date_ms x z"
    using newer_or_equal_trans by blast
  have sub: "set (js_sort (compare_articles date_ms lc ''date'') xs) \<subseteq> ?S"
    by (auto simp: set_js_sort)
  show ?case
    unfolding step
    using sorted_insert_sorted [where S = "insert x (set xs)" and R = "newer_or_equal date_ms"
        and cmp = "compare_articles date_ms lc ''date''" and x = x, OF tot trans sub ih] .
qed

lemma set_apply_filters: "set (apply_filters st data) \<subseteq> set data"
  by (auto simp: apply_filters_def Let_def)

text \<open>
  C8. When the archive results are sorted by date (\<^verbatim>\<open>sortBy = 'date'\<close>) and every
  article carries a date that parses, the list shown is ordered newest first: every
  element is published at the same time as, or later than, each element after it, in
  particular each adjacent pair; and the list holds exactly the filtered articles.
\<close>

theorem C8_sorted_by_date:
  assumes "sortBy st = ''date''" and "\<forall>a \<in> set data. valid_date date_ms a"
  shows "sorted_wrt (newer_or_equal date_ms)
           (articles (searchArticles date_ms localeCompare st (Some data)))
       \<and> (\<forall>i. Suc i < length (articles (searchArticles date_ms localeCompare st (Some data))) \<longrightarrow>
             newer_or_equal date_ms
               (articles (searchArticles date_ms localeCompare st (Some data)) ! i)
               (articles (searchArticles date_ms localeCompare st (Some data)) ! Suc i))
       \<and> mset (articles (searchArticles date_ms localeCompare st (Some data)))
           = mset (apply_filters st data)"
proof -
  let ?out = "articles (searchArticles date_ms localeCompare st (Some data))"
  have out: "?out = js_sort (compare_articles date_ms localeCompare ''date'') (apply_filters st data)"
    using assms(1) by (simp add: searchArticles_def Let_def)
  have valid: "valid_date date_ms a" if "a \<in> set (apply_filters st data)" for a
    using that assms(2) set_apply_filters by blast
  have srt: "sorted_wrt (newer_or_equal date_ms) ?out"
    unfolding out using valid by (rule sorted_js_sort_date)
  have adj: "newer_or_equal date_ms (?out ! i) (?out ! Suc i)" if "Suc i < length ?out" for i
    using srt that by (simp add: sorted_wrt_iff_nth_less)
  have perm: "mset ?out = mset (apply_filters st data)"
    unfolding out by (rule mset_js_sort)
  from srt adj perm show ?thesis by blast
qed

theorem C8_sorted_by_date_witness:
  "sortBy initial_archive_state = ''date''
   \<and> list_all (valid_date iso_utc_ms) (rev getMockArchiveData)
   \<and> sorted_wrt (newer_or_equal iso_utc_ms)
       (articles (searchArticles iso_utc_ms (\<lambda>a b. 0) initial_archive_state
          (Some (rev getMockArchiveData))))
   \<and> map article_id (articles (searchArticles iso_utc_ms (\<lambda>a b. 0) initial_archive_state
          (Some (rev getMockArchiveData)))) = [''1'', ''2'', ''3'', ''4'', ''5'']"
proof -
  have v: "list_all (valid_date iso_utc_ms) (rev getMockArchiveData)"
    by code_simp
  have s: "sortBy initial_archive_state = ''date''"
    by (simp add: initial_archive_state_def)
  have ids: "map article_id (articles (searchArticles iso_utc_ms (\<lambda>a b. 0) initial_archive_state
          (Some (rev getMockArchiveData)))) = [''1'', ''2'', ''3'', ''4'', ''5'']"
    by code_simp
  from v have "\<forall>a \<in> set (rev getMockArchiveData). valid_date iso_utc_ms a"
    by (simp only: list_all_iff)
  from C8_sorted_by_date [OF s this, of "\<lambda>a b. 0"] v s ids show ?thesis
    by blast
qed

subsection \<open>The classification of a score\<close>

text \<open>
  C1, as the claim has it, fails on the panel: at the boundary value \<open>0.1\<close> the
  specification's thresholds say positive, and the panel classifies the score as
  neutral, in the badge and in the trend.
\<close>

theorem C1_boundary_counterexample:
  "spec_label (1 / 10) = positive
   \<and> sentiment_badge (Some (1 / 10)) = ''Neutral''
   \<and> direction (getSentimentTrend (Some (1 / 10))) = ''neutral''"
  by (simp add: spec_label_def sentiment_badge_def getSentimentTrend_def)

text \<open>
  C1, amended. The panel classifies a score three ways, with strict thresholds at
  \<open>0.1\<close> and \<open>-0.1\<close>: a score above \<open>0.1\<close> is Positive (trend up), a score below
  \<open>-0.1\<close> is Negative (trend down), every score from \<open>-0.1\<close> to \<open>0.1\<close>, both
  included, is Neutral. So the specification's positive and strongly positive ranges
  are both shown as Positive, except the boundary \<open>0.1\<close>; its negative and strongly
  negative ranges as Negative, except the boundary \<open>-0.1\<close>; its neutral range as
  Neutral.
\<close>

theorem C1_three_way_classification:
  "(1 / 10 < s \<longrightarrow>
      sentiment_badge (Some s) = ''Positive'' \<and> direction (getSentimentTrend (Some s)) = ''up'')
   \<and> (s < - (1 / 10) \<longrightarrow>
      sentiment_badge (Some s) = ''Negative'' \<and> direction (getSentimentTrend (Some s)) = ''down'')
   \<and> (- (1 / 10) \<le> s \<and> s \<le> 1 / 10 \<longrightarrow>
      sentiment_badge (Some s) = ''Neutral''
      \<and> direction (getSentimentTrend (Some s)) = ''neutral'')
   \<and> ((spec_label s = strongly_positive \<or> spec_label s = positive) \<and> s \<noteq> 1 / 10 \<longrightarrow>
      sentiment_badge (Some s) = ''Positive'')
   \<and> ((spec_label s = strongly_negative \<or> spec_label s = negative) \<and> s \<noteq> - (1 / 10) \<longrightarrow>
      sentiment_badge (Some s) = ''Negative'')
   \<and> (spec_label s = neutral \<longrightarrow> sentiment_badge (Some s) = ''Neutral'')"
  by (auto simp: sentiment_badge_def getSentimentTrend_def spec_label_def split: if_splits)

theorem C1_three_way_classification_witness:
  "spec_label (1 / 2) = strongly_positive \<and> sentiment_badge (Some (1 / 2)) = ''Positive''
   \<and> direction (getSentimentTrend (Some (1 / 2))) = ''up''
   \<and> spec_label (- (1 / 2)) = strongly_negative
   \<and> sentiment_badge (Some (- (1 / 2))) = ''Negative''
   \<and> direction (getSentimentTrend (Some (- (1 / 2)))) = ''down''
   \<and> spec_label (9 / 100) = neutral \<and> sentiment_badge (Some (9 / 100)) = ''Neutral''
   \<and> sentiment_badge (Some (- (1 / 10))) = ''Neutral''
   \<and> direction (getSentimentTrend (Some (- (1 / 10)))) = ''neutral''"
  using C1_three_way_classification [of "1 / 2"] C1_three_way_classification [of "- (1 / 2)"]
    C1_three_way_classification [of "9 / 100"] C1_three_way_classification [of "- (1 / 10)"]
  by (simp add: spec_label_def)

subsection \<open>The helpers on absent input\<close>

lemma truthy_js_get: "truthy v \<Longrightarrow> \<exists>r. js_get v p = Inr r"
  by (cases v) simp_all

lemma getSentimentSummary_total: "\<exists>s. getSentimentSummary td = Inr s"
  using truthy_js_get [of td "''summary''"]
  by (auto simp: getSentimentSummary_def js_bind_def)

lemma formatPieData_total: "\<exists>p. formatPieData sm = Inr p"
proof (cases "truthy sm")
  case False
  then show ?thesis by (simp add: formatPieData_def)
next
  case True
  then obtain d where d: "js_get sm ''sentiment_distribution'' = Inr d"
    using truthy_js_get by blast
  show ?thesis
  proof (cases "truthy d")
    case False
    with True d show ?thesis by (simp add: formatPieData_def js_bind_def)
  next
    case t: True
    obtain p n u where "js_get d ''positive'' = Inr p" "js_get d ''negative'' = Inr n"
      "js_get d ''neutral'' = Inr u"
      using truthy_js_get [OF t] by meson
    with True d t show ?thesis by (simp add: formatPieData_def js_bind_def)
  qed
qed

lemma panel_pie_total: "\<exists>p. panel_pie td = Inr p"
proof -
  obtain s where "getSentimentSummary td = Inr s"
    using getSentimentSummary_total by blast
  then show ?thesis
    using formatPieData_total [of s] by (simp add: panel_pie_def js_bind_def)
qed

lemma formatPieData_zero_summary: "formatPieData zero_summary = Inr zero_pie"
  by (simp add: formatPieData_def js_bind_def zero_summary_def zero_distribution_def
      zero_pie_def js_or_def)

text \<open>
  C7. The summary helper, the distribution helper and their composition in the render
  path return a result for every input, never an error. When the trends data or its
  summary is absent (falsy) the summary is the zeroed structure: no articles, average
  sentiment zero and an all-zero distribution; when the summary or its distribution is
  absent the pie data is the three zero entries, and the zeroed summary gives the zero
  pie. The dashboard's statistics start zeroed with an empty ticker list and keep their
  state when the request fails.
\<close>

theorem C7_zeroed_when_absent:
  "(\<exists>s. getSentimentSummary td = Inr s)
   \<and> (\<exists>p. formatPieData sm = Inr p)
   \<and> (\<exists>p. panel_pie td = Inr p)
   \<and> (\<not> truthy td \<longrightarrow> getSentimentSummary td = Inr zero_summary)
   \<and> (\<forall>v. js_get td ''summary'' = Inr v \<and> \<not> truthy v \<longrightarrow>
         getSentimentSummary td = Inr zero_summary)
   \<and> (\<not> truthy sm \<longrightarrow> formatPieData sm = Inr zero_pie)
   \<and> (\<forall>d. js_get sm ''sentiment_distribution'' = Inr d \<and> \<not> truthy d \<longrightarrow>
         formatPieData sm = Inr zero_pie)
   \<and> (getSentimentSummary td = Inr zero_summary \<longrightarrow> panel_pie td = Inr zero_pie)
   \<and> js_get zero_summary ''total_articles'' = Inr (JNum 0)
   \<and> js_get zero_summary ''average_sentiment'' = Inr (JNum 0)
   \<and> js_get zero_summary ''sentiment_distribution'' = Inr zero_distribution
   \<and> total_articles initial_stats = 0 \<and> average_sentiment initial_stats = 0
   \<and> top_tickers initial_stats = []
   \<and> fetchStats initial_stats None = initial_stats"
proof -
  have a: "\<not> truthy td \<longrightarrow> getSentimentSummary td = Inr zero_summary"
    by (simp add: getSentimentSummary_def)
  have b: "\<forall>v. js_get td ''summary'' = Inr v \<and> \<not> truthy v \<longrightarrow>
         getSentimentSummary td = Inr zero_summary"
    by (auto simp: getSentimentSummary_def js_bind_def)
  have c: "\<not> truthy sm \<longrightarrow> formatPieData sm = Inr zero_pie"
    by (simp add: formatPieData_def)
  have d: "\<forall>d. js_get sm ''sentiment_distribution'' = Inr d \<and> \<not> truthy d \<longrightarrow>
         formatPieData sm = Inr zero_pie"
    by (auto simp: formatPieData_def js_bind_def)
  have e: "getSentimentSummary td = Inr zero_summary \<longrightarrow> panel_pie td = Inr zero_pie"
    by (simp add: panel_pie_def js_bind_def formatPieData_zero_summary)
  have f: "js_get zero_summary ''total_articles'' = Inr (JNum 0)
      \<and> js_get zero_summary ''average_sentiment'' = Inr (JNum 0)
      \<and> js_get zero_summary ''sentiment_distribution'' = Inr zero_distribution"
    by (simp add: zero_summary_def)
  have g: "total_articles initial_stats = 0 \<and> average_sentiment initial_stats = 0
      \<and> top_tickers initial_stats = [] \<and> fetchStats initial_stats None = initial_stats"
    by (simp add: initial_stats_def fetchStats_def)
  from getSentimentSummary_total formatPieData_total panel_pie_total a b c d e f g
  show ?thesis by blast
qed

theorem C7_zeroed_when_absent_witness:
  "getSentimentSummary Null = Inr zero_summary
   \<and> getSentimentSummary (JObj [(''trends'', JArr [])]) = Inr zero_summary
   \<and> formatPieData Undefined = Inr zero_pie
   \<and> formatPieData (JObj [(''total_articles'', JNum 0)]) = Inr zero_pie
   \<and> panel_pie Null = Inr zero_pie"
  using C7_zeroed_when_absent [of Null Undefined]
    C7_zeroed_when_absent [of "JObj [(''trends'', JArr [])]" "JObj [(''total_articles'', JNum 0)]"]
  by simp

subsection \<open>What the schema enforces on \<^verbatim>\<open>news_articles\<close>\<close>

lemma insert_article_distinct:
  "distinct (map article_pk tbl) \<Longrightarrow> insert_article r tbl = Inr tbl'
    \<Longrightarrow> distinct (map article_pk tbl')"
  by (auto simp: insert_article_def split: option.splits if_splits)

lemma update_article_distinct:
  "update_article k f tbl = Inr tbl' \<Longrightarrow> distinct (map article_pk tbl')"
  by (auto simp: update_article_def Let_def split: option.splits if_splits)

lemma delete_article_distinct:
  "distinct (map article_pk tbl) \<Longrightarrow> distinct (map article_pk (delete_article k tbl))"
  by (simp add: delete_article_def distinct_map_filter)

lemma exec_statement_distinct:
  "distinct (map article_pk tbl) \<Longrightarrow> distinct (map article_pk (exec_statement tbl s))"
  by (cases s)
    (auto split: sum.splits
      simp: insert_article_distinct update_article_distinct delete_article_distinct)

lemma exec_statements_distinct:
  "distinct (map article_pk tbl) \<Longrightarrow> distinct (map article_pk (exec_statements tbl ss))"
  unfolding exec_statements_def
  by (induction ss arbitrary: tbl) (simp_all add: exec_statement_distinct)

lemmas article_checks =
  insert_article_def check_article_def article_strings_fit_def article_vectors_fit_def
  fits_def fits_opt_def dim_opt_def article_pk_def blank_article_def

text \<open>
  C5, as the claim has it, fails on the schema: the key of a row is not the pair of
  its dedup key (its URL) and \<^verbatim>\<open>published_at\<close>. A first and a corrected headline
  with one URL and one publication time are both stored, under two ids.
\<close>

theorem C5_url_time_not_a_key_counterexample:
  "exec_statements [] [InsertArticle tesla_first, InsertArticle tesla_corrected]
     = [tesla_first, tesla_corrected]
   \<and> na_url tesla_first = na_url tesla_corrected
   \<and> na_published_at tesla_first = na_published_at tesla_corrected
   \<and> na_title tesla_first \<noteq> na_title tesla_corrected"
  by (simp add: exec_statements_def article_checks tesla_first_def tesla_corrected_def)

text \<open>
  C5, amended. The article table is partitioned by \<^verbatim>\<open>published_at\<close>, and a stored
  row is keyed by \<^verbatim>\<open>(id, published_at)\<close>, the id being the generated UUID and not
  the dedup key: whatever statements have run, no two rows of the table have the same
  id and publication time; and each row lies in exactly one chunk, the one of its
  publication time.
\<close>

theorem C5_primary_key_and_partition:
  "distinct (map article_pk (exec_statements [] stmts))
   \<and> (\<forall>i j. i < length (exec_statements [] stmts) \<and> j < length (exec_statements [] stmts)
          \<and> na_id (exec_statements [] stmts ! i) = na_id (exec_statements [] stmts ! j)
          \<and> na_published_at (exec_statements [] stmts ! i)
              = na_published_at (exec_statements [] stmts ! j)
        \<longrightarrow> i = j)
   \<and> (\<forall>r c. r \<in> set (chunk_rows interval c (exec_statements [] stmts)) \<longleftrightarrow>
          r \<in> set (exec_statements [] stmts) \<and> c = na_published_at r div interval)"
proof -
  let ?tbl = "exec_statements [] stmts"
  have d: "distinct (map article_pk ?tbl)"
    by (rule exec_statements_distinct) simp
  have k: "i = j" if "i < length ?tbl" "j < length ?tbl"
    "na_id (?tbl ! i) = na_id (?tbl ! j)"
    "na_published_at (?tbl ! i) = na_published_at (?tbl ! j)" for i j
  proof -
    have "map article_pk ?tbl ! i = map article_pk ?tbl ! j"
      using that by (simp add: article_pk_def)
    then show ?thesis
      using d that(1,2) nth_eq_iff_index_eq [of "map article_pk ?tbl" i j] by simp
  qed
  have c: "r \<in> set (chunk_rows interval c ?tbl) \<longleftrightarrow>
      r \<in> set ?tbl \<and> c = na_published_at r div interval" for r c
    by (auto simp: chunk_rows_def chunk_of_def)
  from d k c show ?thesis by blast
qed

theorem C5_primary_key_and_partition_witness:
  "exec_statements []
     [InsertArticle tesla_first, InsertArticle (tesla_corrected\<lparr>na_id := 7\<rparr>),
      InsertArticle apple_article] = [tesla_first, apple_article]
   \<and> distinct (map article_pk [tesla_first, apple_article])
   \<and> chunk_rows 604800 2815 [tesla_first, apple_article] = [tesla_first, apple_article]"
proof -
  have e: "exec_statements []
     [InsertArticle tesla_first, InsertArticle (tesla_corrected\<lparr>na_id := 7\<rparr>),
      InsertArticle apple_article] = [tesla_first, apple_article]"
    by (simp add: exec_statements_def article_checks tesla_first_def tesla_corrected_def
        apple_article_def)
  have c: "chunk_rows 604800 2815 [tesla_first, apple_article] = [tesla_first, apple_article]"
    by (simp add: chunk_rows_def chunk_of_def tesla_first_def apple_article_def
        blank_article_def)
  from C5_primary_key_and_partition
    [of "[InsertArticle tesla_first, InsertArticle (tesla_corrected\<lparr>na_id := 7\<rparr>),
          InsertArticle apple_article]" 604800]
  have "distinct (map article_pk [tesla_first, apple_article])"
    unfolding e by blast
  with e c show ?thesis by blast
qed

text \<open>
  C3, as the claim has it, fails on the schema: no constraint of the storage layer
  keeps a URL unique. The same article written twice, each time under the id generated
  for it, is stored twice.
\<close>

theorem C3_same_url_stored_twice_counterexample:
  "exec_statements []
     [InsertArticle (apple_article\<lparr>na_id := 1\<rparr>), InsertArticle (apple_article\<lparr>na_id := 2\<rparr>)]
     = [apple_article\<lparr>na_id := 1\<rparr>, apple_article\<lparr>na_id := 2\<rparr>]
   \<and> na_url (apple_article\<lparr>na_id := 1\<rparr>) = na_url (apple_article\<lparr>na_id := 2\<rparr>)
   \<and> apple_article\<lparr>na_id := 1\<rparr> \<noteq> apple_article\<lparr>na_id := 2\<rparr>"
  by (simp add: exec_statements_def article_checks apple_article_def)

subsection \<open>A row written twice is stored once\<close>

lemma distinct_key_count:
  "distinct (map f xs) \<Longrightarrow> x \<in> set xs \<Longrightarrow> length (filter (\<lambda>r. f r = f x) xs) = 1"
proof (induction xs)
  case Nil
  then show ?case by simp
next
  case (Cons y ys)
  show ?case
  proof (cases "f y = f x")
    case True
    then have "f x \<notin> f ` set ys" using Cons.prems(1) by auto
    then have "\<forall>r\<in>set ys. f r \<noteq> f x"
      by (metis image_eqI)
    then have "filter (\<lambda>r. f r = f x) ys = []"
      by (simp add: filter_empty_conv)
    with True show ?thesis by simp
  next
    case False
    then have "x \<in> set ys" using Cons.prems(2) by auto
    with Cons False show ?thesis by simp
  qed
qed

lemma exec_statements_snoc:
  "exec_statements tbl (ss @ [s]) = exec_statement (exec_statements tbl ss) s"
  by (simp add: exec_statements_def)

text \<open>After an insert of a row the table refuses the row.\<close>

lemma insert_article_again:
  "\<exists>e. insert_article r (exec_statement tbl (InsertArticle r)) = Inl e"
  by (auto simp: insert_article_def split: option.splits)

lemma insert_article_again_unchanged:
  "exec_statement (exec_statement tbl (InsertArticle r)) (InsertArticle r)
     = exec_statement tbl (InsertArticle r)"
  using insert_article_again [of r tbl] by auto

text \<open>After an insert of a row that fits its columns the key of the row is in the table.\<close>

lemma insert_article_key_stored:
  "check_article r = None
   \<Longrightarrow> article_pk r \<in> article_pk ` set (exec_statement tbl (InsertArticle r))"
  by (auto simp: insert_article_def)

text \<open>
  C3. The storage layer keeps the pair \<open>(id, published_at)\<close> unique, and nothing else:
  writing the same row (the same id and publication time) twice leaves the table as
  writing it once does, whatever was written before; the second write is refused by
  the table itself, with no state other than the stored rows; and when the row fits its
  columns exactly one stored article has its key.
\<close>

theorem C3_same_row_stored_once:
  "exec_statements [] (stmts @ [InsertArticle r, InsertArticle r])
     = exec_statements [] (stmts @ [InsertArticle r])
   \<and> (\<exists>e. insert_article r (exec_statements [] (stmts @ [InsertArticle r])) = Inl e)
   \<and> (check_article r = None \<longrightarrow>
        length (filter (\<lambda>x. article_pk x = article_pk r)
                 (exec_statements [] (stmts @ [InsertArticle r, InsertArticle r]))) = 1)"
proof -
  let ?once = "exec_statements [] (stmts @ [InsertArticle r])"
  have once: "?once = exec_statement (exec_statements [] stmts) (InsertArticle r)"
    by (rule exec_statements_snoc)
  have "exec_statements [] (stmts @ [InsertArticle r, InsertArticle r])
      = exec_statement ?once (InsertArticle r)"
    using exec_statements_snoc [of "[]" "stmts @ [InsertArticle r]" "InsertArticle r"] by simp
  then have same: "exec_statements [] (stmts @ [InsertArticle r, InsertArticle r]) = ?once"
    unfolding once by (simp only: insert_article_again_unchanged)
  have refused: "\<exists>e. insert_article r ?once = Inl e"
    unfolding once by (rule insert_article_again)
  have one: "length (filter (\<lambda>x. article_pk x = article_pk r) ?once) = 1"
    if "check_article r = None"
  proof -
    have "article_pk r \<in> article_pk ` set ?once"
      unfolding once using that by (rule insert_article_key_stored)
    then obtain x where x: "x \<in> set ?once" "article_pk x = article_pk r"
      by auto
    have "distinct (map article_pk ?once)"
      by (rule exec_statements_distinct) simp
    from distinct_key_count [OF this x(1)] x(2) show ?thesis
      by simp
  qed
  from same refused one show ?thesis
    by simp
qed

theorem C3_same_row_stored_once_witness:
  "check_article (apple_article\<lparr>na_id := 1\<rparr>) = None
   \<and> exec_statements []
       [InsertArticle tesla_first, InsertArticle (apple_article\<lparr>na_id := 1\<rparr>),
        InsertArticle (apple_article\<lparr>na_id := 1\<rparr>)]
     = [tesla_first, apple_article\<lparr>na_id := 1\<rparr>]
   \<and> insert_article (apple_article\<lparr>na_id := 1\<rparr>) [tesla_first, apple_article\<lparr>na_id := 1\<rparr>]
     = Inl UniqueViolation
   \<and> length (filter (\<lambda>x. article_pk x = article_pk (apple_article\<lparr>na_id := 1\<rparr>))
        (exec_statements []
          [InsertArticle tesla_first, InsertArticle (apple_article\<lparr>na_id := 1\<rparr>),
           InsertArticle (apple_article\<lparr>na_id := 1\<rparr>)])) = 1"
proof -
  have c: "check_article (apple_article\<lparr>na_id := 1\<rparr>) = None"
    by (simp add: article_checks apple_article_def)
  have e: "exec_statements []
       [InsertArticle tesla_first, InsertArticle (apple_article\<lparr>na_id := 1\<rparr>)]
     = [tesla_first, apple_article\<lparr>na_id := 1\<rparr>]"
    by (simp add: exec_statements_def article_checks tesla_first_def apple_article_def)
  have v: "insert_article (apple_article\<lparr>na_id := 1\<rparr>) [tesla_first, apple_article\<lparr>na_id := 1\<rparr>]
     = Inl UniqueViolation"
    by (simp add: article_checks tesla_first_def apple_article_def)
  have twice: "exec_statements []
       [InsertArticle tesla_first, InsertArticle (apple_article\<lparr>na_id := 1\<rparr>),
        InsertArticle (apple_article\<lparr>na_id := 1\<rparr>)]
     = [tesla_first, apple_article\<lparr>na_id := 1\<rparr>]"
    using C3_same_row_stored_once [of "[InsertArticle tesla_first]" "apple_article\<lparr>na_id := 1\<rparr>"] e
    by simp
  have n: "length (filter (\<lambda>x. article_pk x = article_pk (apple_article\<lparr>na_id := 1\<rparr>))
        [tesla_first, apple_article\<lparr>na_id := 1\<rparr>]) = 1"
    by (simp add: article_pk_def tesla_first_def apple_article_def blank_article_def)
  show ?thesis
    unfolding twice using c v n by simp
qed

subsection \<open>The price snapshots in the pipeline\<close>

lemma insert_impact_list_all:
  assumes "insert_impact r tbl = Inr tbl'" and "list_all P tbl" and "P r"
  shows "list_all P tbl'"
  using assms by (auto simp: insert_impact_def split: option.splits if_splits)

lemma delete_impacts_list_all: "list_all P tbl \<Longrightarrow> list_all P (delete_impacts a t w tbl)"
  by (auto simp: delete_impacts_def list_all_iff)

text \<open>Ingestion, scoring and archiving write no market impact record.\<close>

lemma ingest_one_impacts: "market_impacts (fst (ingest_one sr a)) = market_impacts (fst sr)"
  by (auto simp: ingest_one_def Let_def split: sum.splits db_error.splits)

lemma ingest_fold_impacts:
  "market_impacts (fst (foldl ingest_one sr raws)) = market_impacts (fst sr)"
  by (induction raws arbitrary: sr) (simp_all add: ingest_one_impacts)

lemma score_article_impacts: "market_impacts (score_article comb k ra rb st) = market_impacts st"
  by (simp add: score_article_def split: option.splits sum.splits)

lemma archive_article_impacts: "market_impacts (archive_article k st) = market_impacts st"
  by (simp add: archive_article_def split: sum.splits)

subsection \<open>Correlation jobs\<close>

lemma impact_row_paired: "prices_paired ((impact_row art s ticker window now b a)\<lparr>mi_id := i\<rparr>)"
  by (simp add: prices_paired_def impact_row_def Let_def)

lemma commit_impact_paired:
  assumes "commit_impact k (impact_row art s ticker window now b a) st = Inr st'"
    and "list_all prices_paired (market_impacts st)"
  shows "list_all prices_paired (market_impacts st')"
proof -
  let ?row = "impact_row art s ticker window now b a"
  let ?others = "delete_impacts (mi_article_id ?row) (mi_ticker_symbol ?row)
                     (mi_impact_window_hours ?row) (market_impacts st)"
  obtain imps where i: "insert_impact (?row\<lparr>mi_id := next_uuid (map mi_id ?others)\<rparr>) ?others = Inr imps"
    and m: "market_impacts st' = imps"
    using assms(1) by (auto simp: commit_impact_def Let_def split: sum.splits)
  have "list_all prices_paired ?others"
    using assms(2) by (rule delete_impacts_list_all)
  from insert_impact_list_all [OF i this impact_row_paired] m show ?thesis by simp
qed

text \<open>A step that is not the commit leaves the store as it is.\<close>

lemma job_step_store:
  "fst (job_step price_at k ticker window now (st, ph)) = st
   \<or> (\<exists>s b a. ph = HaveBoth s b a
        \<and> commit_impact k (impact_row (fst k) s ticker window now b a) st
            = Inr (fst (job_step price_at k ticker window now (st, ph)))
        \<and> snd (job_step price_at k ticker window now (st, ph)) = Committed)"
  by (cases ph)
    (auto simp: job_step_def Let_def split: option.splits float8.splits sum.splits)

lemma job_step_paired:
  assumes "list_all prices_paired (market_impacts (fst sp))"
  shows "list_all prices_paired (market_impacts (fst (job_step price_at k ticker window now sp)))"
proof -
  obtain st ph where sp: "sp = (st, ph)" by (cases sp)
  from job_step_store [of price_at k ticker window now st ph] show ?thesis
  proof
    assume "fst (job_step price_at k ticker window now (st, ph)) = st"
    with assms sp show ?thesis by simp
  next
    assume "\<exists>s b a. ph = HaveBoth s b a
        \<and> commit_impact k (impact_row (fst k) s ticker window now b a) st
            = Inr (fst (job_step price_at k ticker window now (st, ph)))
        \<and> snd (job_step price_at k ticker window now (st, ph)) = Committed"
    then obtain s b a where c: "commit_impact k (impact_row (fst k) s ticker window now b a) st
            = Inr (fst (job_step price_at k ticker window now (st, ph)))"
      by blast
    from commit_impact_paired [OF c] assms sp show ?thesis by simp
  qed
qed

lemma job_steps_paired:
  assumes "list_all prices_paired (market_impacts (fst sp))"
  shows "list_all prices_paired
           (market_impacts (fst (((job_step price_at k ticker window now) ^^ n) sp)))"
  using assms by (induction n) (simp_all add: job_step_paired)

lemma run_job_abandoned:
  assumes "n < 3"
  shows "fst (run_job price_at k ticker window now n st) = st"
proof -
  let ?f = "job_step price_at k ticker window now"
  have 0: "(?f ^^ 0) (st, Pending) = (st, Pending)" by simp
  have 1: "fst ((?f ^^ 1) (st, Pending)) = st
      \<and> (\<forall>s b a. snd ((?f ^^ 1) (st, Pending)) \<noteq> HaveBoth s b a)"
    by (auto simp: job_step_def Let_def split: option.splits float8.splits)
  have 2: "fst ((?f ^^ 2) (st, Pending)) = st"
  proof -
    have "(?f ^^ 2) (st, Pending) = ?f ((?f ^^ 1) (st, Pending))"
      by (simp add: numeral_2_eq_2)
    moreover obtain ph where ph: "(?f ^^ 1) (st, Pending) = (st, ph)"
      and nb: "\<forall>s b a. ph \<noteq> HaveBoth s b a"
      using 1 by (metis prod.collapse)
    ultimately show ?thesis
      using job_step_store [of price_at k ticker window now st ph] by auto
  qed
  from assms have "n = 0 \<or> n = 1 \<or> n = 2" by arith
  with 0 1 2 show ?thesis by (auto simp: run_job_def)
qed

subsection \<open>Every operation keeps the price snapshots whole\<close>

lemma apply_op_paired:
  assumes "list_all prices_paired (market_impacts st)"
  shows "list_all prices_paired (market_impacts (apply_op cfg st x))"
proof (cases x)
  case (Ingest raws)
  then show ?thesis
    using assms ingest_fold_impacts [of "(st, no_result)" raws]
    by (simp add: ingest_def)
next
  case (Score k ra rb)
  then show ?thesis using assms by (simp add: score_article_impacts)
next
  case (Correlate k ticker window now n)
  then show ?thesis
    using assms job_steps_paired [of "(st, Pending)"] by (simp add: run_job_def)
next
  case (Archive k)
  then show ?thesis using assms by (simp add: archive_article_impacts)
qed

lemma run_pipeline_paired:
  "list_all prices_paired (market_impacts st) \<Longrightarrow>
   list_all prices_paired (market_impacts (run_pipeline cfg st ops))"
  unfolding run_pipeline_def
  by (induction ops arbitrary: st) (simp_all add: apply_op_paired)

text \<open>
  C6. In every store the pipeline reaches, each market impact record has its two
  prices both present or both null. A correlation job keeps this whether it completes,
  fails or is abandoned after any number of steps, and a job abandoned before its third
  step, the commit, leaves the store exactly as it was.
\<close>

theorem C6_prices_paired:
  "list_all prices_paired (market_impacts (run_pipeline cfg empty_store ops))
   \<and> (\<forall>r \<in> set (market_impacts (run_pipeline cfg empty_store ops)).
         (mi_price_before r = None) = (mi_price_after r = None))
   \<and> (list_all prices_paired (market_impacts st) \<longrightarrow>
         list_all prices_paired
           (market_impacts (fst (run_job price_at k ticker window now n st))))
   \<and> (n < 3 \<longrightarrow> fst (run_job price_at k ticker window now n st) = st)"
proof -
  have e: "list_all prices_paired (market_impacts empty_store)"
    by (simp add: empty_store_def)
  have inv: "list_all prices_paired (market_impacts (run_pipeline cfg empty_store ops))"
    using e by (rule run_pipeline_paired)
  then have rows: "\<forall>r \<in> set (market_impacts (run_pipeline cfg empty_store ops)).
         (mi_price_before r = None) = (mi_price_after r = None)"
    by (simp add: list_all_iff prices_paired_def)
  have job: "list_all prices_paired (market_impacts st) \<longrightarrow>
         list_all prices_paired
           (market_impacts (fst (run_job price_at k ticker window now n st)))"
    using job_steps_paired [where sp = "(st, Pending)"]
    by (simp add: run_job_def)
  have ab: "n < 3 \<longrightarrow> fst (run_job price_at k ticker window now n st) = st"
    using run_job_abandoned by blast
  from inv rows job ab show ?thesis by blast
qed

theorem C6_prices_paired_witness:
  "map mi_price_before (market_impacts (run_pipeline example_config empty_store example_ops))
     = [Some (Finite 100)]
   \<and> map mi_price_after (market_impacts (run_pipeline example_config empty_store example_ops))
     = [Some (Finite 105)]
   \<and> list_all prices_paired
        (market_impacts (run_pipeline example_config empty_store example_ops))
   \<and> (2::nat) < 3
   \<and> fst (run_job (cfg_price_at example_config) (1, 1702650600) ''AAPL'' 24 1702740000 2
          (run_pipeline example_config empty_store (take 2 example_ops)))
       = run_pipeline example_config empty_store (take 2 example_ops)"
proof -
  have b: "map mi_price_before
      (market_impacts (run_pipeline example_config empty_store example_ops))
     = [Some (Finite 100)]"
    by code_simp
  have a: "map mi_price_after
      (market_impacts (run_pipeline example_config empty_store example_ops))
     = [Some (Finite 105)]"
    by code_simp
  from C6_prices_paired [of example_config example_ops
      "run_pipeline example_config empty_store (take 2 example_ops)"
      "cfg_price_at example_config" "(1, 1702650600)" "''AAPL''" 24 1702740000 2] a b
  show ?thesis by simp
qed

subsection \<open>What the storage alone accepts\<close>

text \<open>
  The columns of the scores and of the prices are plain nullable \<^verbatim>\<open>FLOAT\<close>s: the
  schema accepts a sentiment score outside \<open>[-1, 1]\<close>, a confidence that is not a
  number, and a market impact record with one price only. That the two prices come
  together is kept by the correlation job, not by the storage.
\<close>

lemma schema_accepts_any_score:
  "insert_article
     (apple_article\<lparr>na_sentiment_score := Some (Finite 2),
        na_confidence_score := Some NotANumber\<rparr>) []
   = Inr [apple_article\<lparr>na_sentiment_score := Some (Finite 2),
            na_confidence_score := Some NotANumber\<rparr>]"
  by (simp add: article_checks apple_article_def)

lemma schema_accepts_one_price:
  "insert_impact (blank_impact\<lparr>mi_ticker_symbol := ''AAPL'',
       mi_price_before := Some (Finite 100)\<rparr>) []
   = Inr [blank_impact\<lparr>mi_ticker_symbol := ''AAPL'', mi_price_before := Some (Finite 100)\<rparr>]"
  by (simp add: insert_impact_def check_impact_def fits_def int4_def blank_impact_def)

text \<open>
  Ingestion that leaves the guard against duplicates to the storage stores an article
  delivered twice twice: each write gets an id of its own, and the table keeps only the
  pair of id and publication time unique.
\<close>

lemma ingest_twice_stores_twice:
  "map na_url (news_articles (fst (ingest empty_store [apple_raw, apple_raw])))
     = [raw_url apple_raw, raw_url apple_raw]
   \<and> inserted (snd (ingest empty_store [apple_raw, apple_raw])) = 2
   \<and> skipped_duplicate (snd (ingest empty_store [apple_raw, apple_raw])) = 0"
  by code_simp

end
